theory Spec2Isabelle
  imports Main
begin

section \<open>JavaScript strings and built-ins used by index.js\<close>

text \<open>
  A JavaScript string is a sequence of UTF-16 code units. The model uses \<^typ>\<open>string\<close>:
  every \<^typ>\<open>char\<close> stands for one code unit below 256 (ASCII and Latin-1, which holds
  every label and key the server compares against, such as \<open>alegr\<close>\<^verbatim>\<open>0xED\<close>\<open>a\<close>), and
  \<open>length\<close> is the \<^verbatim>\<open>.length\<close> of the string.
\<close>

text \<open>White space and line terminators removed by \<^verbatim>\<open>String.prototype.trim\<close> and skipped
  by \<^verbatim>\<open>parseInt\<close> (TAB, LF, VT, FF, CR, SP, NBSP).\<close>

definition isWhiteSpace :: "char \<Rightarrow> bool" where
  "isWhiteSpace c =
     (c = CHR 0x09 \<or> c = CHR 0x0A \<or> c = CHR 0x0B \<or> c = CHR 0x0C \<or> c = CHR 0x0D
      \<or> c = CHR 0x20 \<or> c = CHR 0xA0)"

definition trim :: "string \<Rightarrow> string" where
  "trim s = rev (dropWhile isWhiteSpace (rev (dropWhile isWhiteSpace s)))"

text \<open>\<^verbatim>\<open>toLowerCase\<close>: the letters A-Z and the Latin-1 capitals \<^verbatim>\<open>0xC0\<close>-\<^verbatim>\<open>0xDE\<close>
  (without the multiplication sign \<^verbatim>\<open>0xD7\<close>) move to their lower-case partner; every
  other code unit below 256 stays.\<close>

definition upperCaseUnits :: string where
  "upperCaseUnits = ''ABCDEFGHIJKLMNOPQRSTUVWXYZ'' @
     [CHR 0xC0, CHR 0xC1, CHR 0xC2, CHR 0xC3, CHR 0xC4, CHR 0xC5, CHR 0xC6, CHR 0xC7,
      CHR 0xC8, CHR 0xC9, CHR 0xCA, CHR 0xCB, CHR 0xCC, CHR 0xCD, CHR 0xCE, CHR 0xCF,
      CHR 0xD0, CHR 0xD1, CHR 0xD2, CHR 0xD3, CHR 0xD4, CHR 0xD5, CHR 0xD6,
      CHR 0xD8, CHR 0xD9, CHR 0xDA, CHR 0xDB, CHR 0xDC, CHR 0xDD, CHR 0xDE]"

definition lowerCaseUnits :: string where
  "lowerCaseUnits = ''abcdefghijklmnopqrstuvwxyz'' @
     [CHR 0xE0, CHR 0xE1, CHR 0xE2, CHR 0xE3, CHR 0xE4, CHR 0xE5, CHR 0xE6, CHR 0xE7,
      CHR 0xE8, CHR 0xE9, CHR 0xEA, CHR 0xEB, CHR 0xEC, CHR 0xED, CHR 0xEE, CHR 0xEF,
      CHR 0xF0, CHR 0xF1, CHR 0xF2, CHR 0xF3, CHR 0xF4, CHR 0xF5, CHR 0xF6,
      CHR 0xF8, CHR 0xF9, CHR 0xFA, CHR 0xFB, CHR 0xFC, CHR 0xFD, CHR 0xFE]"

definition lowerChar :: "char \<Rightarrow> char" where
  "lowerChar c = (case map_of (zip upperCaseUnits lowerCaseUnits) c of Some l \<Rightarrow> l | None \<Rightarrow> c)"

definition toLowerCase :: "string \<Rightarrow> string" where
  "toLowerCase s = map lowerChar s"

definition startsWith :: "string \<Rightarrow> string \<Rightarrow> bool" where
  "startsWith s p = (take (length p) s = p)"

text \<open>A non-negative integer inside a template literal: its decimal digits.\<close>

fun showNat :: "nat \<Rightarrow> string" where
  "showNat n = (if n < 10 then [''0123456789'' ! n]
                else showNat (n div 10) @ [''0123456789'' ! (n mod 10)])"

declare showNat.simps [simp del]

text \<open>\<^verbatim>\<open>parseInt(s, 10)\<close>: leading white space, an optional sign, then the longest run of
  decimal digits; \<open>None\<close> is \<^verbatim>\<open>NaN\<close> (no digit there). The value is exact, as it is in
  JavaScript for numbers below \<open>2 ^ 53\<close>.\<close>

definition isDigit :: "char \<Rightarrow> bool" where
  "isDigit c = (c \<in> set ''0123456789'')"

definition digitVal :: "char \<Rightarrow> nat" where
  "digitVal c = (of_char c :: nat) - 48"

definition parseInt10 :: "string \<Rightarrow> int option" where
  "parseInt10 s =
     (let t = dropWhile isWhiteSpace s;
          neg = (t \<noteq> [] \<and> hd t = CHR ''-'');
          u = (if t \<noteq> [] \<and> (hd t = CHR ''-'' \<or> hd t = CHR ''+'') then tl t else t);
          ds = takeWhile isDigit u
      in if ds = [] then None
         else Some ((if neg then - 1 else 1) * int (foldl (\<lambda>a c. 10 * a + digitVal c) 0 ds)))"

text \<open>\<^verbatim>\<open>s.split(sep)[1]\<close>: the piece between the first and the second separator,
  \<open>None\<close> (\<^verbatim>\<open>undefined\<close>) when \<open>s\<close> has no separator.\<close>

definition splitSecond :: "char \<Rightarrow> string \<Rightarrow> string option" where
  "splitSecond sep s =
     (case dropWhile (\<lambda>c. c \<noteq> sep) s of
        [] \<Rightarrow> None
      | _ # r \<Rightarrow> Some (takeWhile (\<lambda>c. c \<noteq> sep) r))"

text \<open>\<^verbatim>\<open>a % b\<close> for integers and a positive \<open>b\<close>: the result has the sign of \<open>a\<close>.\<close>

definition jsRem :: "int \<Rightarrow> int \<Rightarrow> int" where
  "jsRem a b = (if a < 0 then - ((- a) mod b) else a mod b)"

subsection \<open>\<^verbatim>\<open>JSON.stringify\<close> without indentation\<close>

definition hexDigit :: "nat \<Rightarrow> char" where
  "hexDigit n = ''0123456789abcdef'' ! n"

definition jsonEscapeChar :: "char \<Rightarrow> string" where
  "jsonEscapeChar c =
     (if c = CHR 0x22 then [CHR 0x5C, CHR 0x22]
      else if c = CHR 0x5C then [CHR 0x5C, CHR 0x5C]
      else if c = CHR 0x08 then [CHR 0x5C, CHR ''b'']
      else if c = CHR 0x0C then [CHR 0x5C, CHR ''f'']
      else if c = CHR 0x0A then [CHR 0x5C, CHR ''n'']
      else if c = CHR 0x0D then [CHR 0x5C, CHR ''r'']
      else if c = CHR 0x09 then [CHR 0x5C, CHR ''t'']
      else if (of_char c :: nat) < 32
        then [CHR 0x5C, CHR ''u'', CHR ''0'', CHR ''0'',
              hexDigit ((of_char c :: nat) div 16), hexDigit ((of_char c :: nat) mod 16)]
      else [c])"

definition jsonQuote :: "string \<Rightarrow> string" where
  "jsonQuote s = [CHR 0x22] @ concat (map jsonEscapeChar s) @ [CHR 0x22]"

fun joinWith :: "string \<Rightarrow> string list \<Rightarrow> string" where
  "joinWith sep [] = []"
| "joinWith sep [x] = x"
| "joinWith sep (x # y # ys) = x @ sep @ joinWith sep (y # ys)"

definition jsonObject :: "(string \<times> string) list \<Rightarrow> string" where
  "jsonObject members =
     ''{'' @ joinWith '','' (map (\<lambda>(k, v). jsonQuote k @ '':'' @ v) members) @ ''}''"

section \<open>Persisted documents\<close>

text \<open>
  One entry of \<^verbatim>\<open>historial.json\<close>, with the four properties the \<^verbatim>\<open>/chat\<close> handler
  writes (all of them strings).
\<close>

record turn =
  user_responde :: string
  sentimiento :: string
  mia_emocion :: string
  mia_text :: string

text \<open>
  The parsed \<^verbatim>\<open>historial.json\<close>: an object whose property names are not array indices,
  so \<^verbatim>\<open>Object.keys\<close> lists them in insertion order. It is kept as an association list
  in that order.
\<close>

type_synonym historial = "(string \<times> turn) list"

definition objectKeys :: "historial \<Rightarrow> string list" where
  "objectKeys h = map fst h"

text \<open>\<^verbatim>\<open>obj[k] = v\<close>: an existing property keeps its place, a new one goes last.\<close>

definition objectSet :: "historial \<Rightarrow> string \<Rightarrow> turn \<Rightarrow> historial" where
  "objectSet h k v =
     (if k \<in> set (objectKeys h) then map (\<lambda>(k', v'). if k' = k then (k', v) else (k', v')) h
      else h @ [(k, v)])"

definition stringifyTurn :: "turn \<Rightarrow> string" where
  "stringifyTurn c =
     jsonObject [(''user_responde'', jsonQuote (user_responde c)),
                 (''sentimiento'', jsonQuote (sentimiento c)),
                 (''mia_emocion'', jsonQuote (mia_emocion c)),
                 (''mia_text'', jsonQuote (mia_text c))]"

definition JSON_stringify :: "historial \<Rightarrow> string" where
  "JSON_stringify h = jsonObject (map (\<lambda>(k, c). (k, stringifyTurn c)) h)"

text \<open>\<^verbatim>\<open>historial_resumen.json\<close> holds either the empty object (\<open>None\<close>) or a summary.
  \<open>updatedAt\<close> is kept as the clock reading in milliseconds that the ISO text is made of.\<close>

record summary =
  resumen :: string
  updatedAt :: int
  total_conversaciones :: nat

text \<open>A file on disk: missing or not parsable as JSON, or holding a value.\<close>

datatype 'a jsonFile = Unreadable | Content 'a

definition readJsonSafe :: "'a jsonFile \<Rightarrow> 'a \<Rightarrow> 'a" where
  "readJsonSafe f fallback = (case f of Unreadable \<Rightarrow> fallback | Content x \<Rightarrow> x)"

definition summaryResumen :: "summary option \<Rightarrow> string" where
  "summaryResumen sm = (case sm of None \<Rightarrow> [] | Some r \<Rightarrow> resumen r)"

section \<open>Visuals\<close>

record visuals =
  facialExpression :: string
  animation :: string

definition rotatingTalkingAnimation :: "int \<Rightarrow> string" where
  "rotatingTalkingAnimation conversationIndex =
     (let m = jsRem conversationIndex 3 in
      if m = 0 then ''Talking_0'' else if m = 1 then ''Talking_1'' else ''Talking_2'')"

text \<open>The label may be missing (\<open>None\<close> for \<^verbatim>\<open>undefined\<close>); a missing or empty label counts
  as \<^verbatim>\<open>"default"\<close>.\<close>

definition mapEmotionToVisuals :: "string option \<Rightarrow> int \<Rightarrow> visuals" where
  "mapEmotionToVisuals emocion conversationIndex =
     (let e = toLowerCase (case emocion of None \<Rightarrow> ''default''
                           | Some l \<Rightarrow> if l = [] then ''default'' else l)
      in \<lparr>facialExpression =
            (if e = ''alegr'' @ [CHR 0xED] @ ''a'' then ''smile''
             else if e = ''amor'' then ''smile''
             else if e = ''tristeza'' then ''sad''
             else if e = ''ira'' then ''angry''
             else if e = ''miedo'' then ''surprised''
             else if e = ''sorpresa'' then ''surprised''
             else ''default''),
          animation = rotatingTalkingAnimation conversationIndex\<rparr>)"

section \<open>Context for the language model: summary and the last turns\<close>

definition MAX_CONTEXT_CHARS :: nat where
  "MAX_CONTEXT_CHARS = 10000"

definition RECENT_TURNS :: nat where
  "RECENT_TURNS = 6"

text \<open>\<^verbatim>\<open>parseInt(k.split("_")[1] || "0", 10)\<close>\<close>

definition turnNumber :: "string \<Rightarrow> int option" where
  "turnNumber k =
     parseInt10 (case splitSecond CHR ''_'' k of
                   None \<Rightarrow> ''0''
                 | Some p \<Rightarrow> if p = [] then ''0'' else p)"

text \<open>The comparator \<^verbatim>\<open>(a, b) => na - nb\<close>; a \<^verbatim>\<open>NaN\<close> difference counts as 0.\<close>

definition compareTurnKeys :: "string \<Rightarrow> string \<Rightarrow> int" where
  "compareTurnKeys a b =
     (case (turnNumber a, turnNumber b) of
        (Some na, Some nb) \<Rightarrow> na - nb
      | _ \<Rightarrow> 0)"

text \<open>
  \<^verbatim>\<open>Array.prototype.sort\<close> is stable. For a comparator that is a consistent order (every
  key has a number) its result is the one of the stable insertion sort below; for keys
  without a number the order JavaScript produces is left to the engine.
\<close>

fun insertKey :: "string \<Rightarrow> string list \<Rightarrow> string list" where
  "insertKey a [] = [a]"
| "insertKey a (b # bs) = (if compareTurnKeys a b \<le> 0 then a # b # bs else b # insertKey a bs)"

definition sortTurnKeys :: "string list \<Rightarrow> string list" where
  "sortTurnKeys ks = foldr insertKey ks []"

text \<open>\<^verbatim>\<open>xs.slice(-n)\<close>\<close>

definition sliceLast :: "nat \<Rightarrow> 'a list \<Rightarrow> 'a list" where
  "sliceLast n xs = drop (length xs - n) xs"

text \<open>The local \<^verbatim>\<open>slice\<close> of \<^verbatim>\<open>formatRecentTurns\<close>: the keys of the selected window.\<close>

definition recentKeys :: "historial \<Rightarrow> string list" where
  "recentKeys historialObj =
     (let keys = sortTurnKeys (filter (\<lambda>k. startsWith k ''conversacion_'') (objectKeys historialObj))
      in sliceLast RECENT_TURNS keys)"

text \<open>One round of the loop body: the block appended to \<^verbatim>\<open>acc\<close> for a key.\<close>

definition formatTurn :: "string \<Rightarrow> turn option \<Rightarrow> string" where
  "formatTurn key c =
     (let u = (case c of None \<Rightarrow> [] | Some t \<Rightarrow> user_responde t);
          m = (case c of None \<Rightarrow> [] | Some t \<Rightarrow> mia_text t)
      in [CHR 0x0A] @ ''['' @ key @ '']'' @ [CHR 0x0A] @ ''Usuario: '' @ u @ [CHR 0x0A]
         @ ''MIA: '' @ (if m = [] then ''(sin respuesta registrada)'' else m) @ [CHR 0x0A])"

definition formatRecentTurns :: "historial \<Rightarrow> string" where
  "formatRecentTurns historialObj =
     trim (concat (map (\<lambda>key. formatTurn key (map_of historialObj key)) (recentKeys historialObj)))"

section \<open>Collaborators, clock and session state\<close>

text \<open>An error is the message of the exception that was thrown.\<close>

type_synonym error = string

text \<open>
  What is sent to \<^verbatim>\<open>openai.responses.create\<close>: the values placed into the fixed prompt
  text, for the reply (summary, recent turns, transcript, the two labels, the number of
  turns) and for the summary (previous summary, full history).
\<close>

datatype prompt =
    ReplyPrompt string string string string string nat
  | SummaryPrompt string historial

text \<open>A call that leaves the process, in the order made. A lip sync is recorded with the
  audio file it found on disk (\<open>None\<close> when there was none).\<close>

datatype call =
    Whisper string string string
  | Sentiment string
  | MiaPredict string string
  | Responses prompt
  | TextToSpeech string string
  | LipSync nat "string option"
  | ChatCompletions string

record message = visuals +
  msgText :: string
  audio :: "string option"
  lipsync :: "string option"

text \<open>
  Everything a request reads from outside the process: the two credentials, the readings
  of \<^verbatim>\<open>Date.now()\<close> (in the activity middleware, at the expiry test, when the summary is
  written, and at the last refresh of \<^verbatim>\<open>lastActivity\<close>), and the answer of every
  collaborator to the arguments it is called with. \<open>textToSpeech\<close> is the ElevenLabs
  service: it answers with the audio that is written to the file, as \<^verbatim>\<open>audioFileToBase64\<close>
  reads it afterwards, or with an error. \<open>lipSync\<close> is \<^verbatim>\<open>ffmpeg\<close> and \<^verbatim>\<open>rhubarb\<close> run on
  the audio file of a message: it answers with the content of the JSON file they leave for
  \<^verbatim>\<open>readJsonTranscript\<close>. \<open>chatCompletions\<close> answers with the parsed list of messages.
\<close>

record env =
  openaiApiKey :: string
  elevenLabsApiKey :: "string option"
  nowMiddleware :: int
  nowGate :: int
  nowSummary :: int
  nowEnd :: int
  whisperCreate :: "string \<Rightarrow> string \<Rightarrow> string \<Rightarrow> error + string option"
  sentimentService :: "string \<Rightarrow> error + string option"
  miaPredictService :: "string \<Rightarrow> string \<Rightarrow> error + string option"
  responsesCreate :: "prompt \<Rightarrow> error + string option"
  textToSpeech :: "string \<Rightarrow> string \<Rightarrow> error + string"
  lipSync :: "nat \<Rightarrow> string \<Rightarrow> error + string"
  chatCompletions :: "string \<Rightarrow> error + message list"

text \<open>
  The process-wide state: the two variables, the two documents, and what the directory
  \<^verbatim>\<open>audios\<close> holds: the intro assets \<^verbatim>\<open>audios/intro_0.wav\<close> and \<^verbatim>\<open>audios/intro_0.json\<close>
  (\<open>None\<close> when they cannot be read) and the files \<^verbatim>\<open>audios/message_\<close>\<open>i\<close>\<^verbatim>\<open>.mp3\<close>, each
  index \<open>i\<close> with the content of its file.
  Writing a file and creating or removing a directory are taken to succeed. A handler and
  the watchdog callback each run from start to end on this state, one at a time.
\<close>

record session =
  lastActivity :: int
  sessionExpired :: bool
  histFile :: "historial jsonFile"
  summaryFile :: "summary option jsonFile"
  introAssets :: "(string \<times> string) option"
  messageMp3 :: "(nat \<times> string) list"

definition INACTIVITY_MS :: int where
  "INACTIVITY_MS = 5 * 60 * 1000"

text \<open>\<^verbatim>\<open>x || ""\<close> for a value that is a string or missing.\<close>

definition orEmpty :: "string option \<Rightarrow> string" where
  "orEmpty x = (case x of None \<Rightarrow> [] | Some v \<Rightarrow> v)"

text \<open>\<^verbatim>\<open>fs.rm("audios", ...)\<close> takes every file of the directory away.\<close>

definition clearAudios :: "session \<Rightarrow> session" where
  "clearAudios s = s\<lparr>introAssets := None, messageMp3 := []\<rparr>"

definition clearHistorial :: "session \<Rightarrow> session" where
  "clearHistorial s = s\<lparr>histFile := Content [], summaryFile := Content None\<rparr>"

definition resetSession :: "int \<Rightarrow> session \<Rightarrow> session" where
  "resetSession now s = (clearHistorial (clearAudios s))\<lparr>sessionExpired := False, lastActivity := now\<rparr>"

text \<open>The watchdog callback, run to its end: \<open>now\<close> is the clock at the test, \<open>nowReset\<close>
  the clock when \<^verbatim>\<open>resetSession\<close> finishes.\<close>

definition watchdog :: "int \<Rightarrow> int \<Rightarrow> session \<Rightarrow> session" where
  "watchdog now nowReset s =
     (let idle = now - lastActivity s
      in if \<not> sessionExpired s \<and> idle \<ge> INACTIVITY_MS
         then resetSession nowReset (s\<lparr>sessionExpired := True\<rparr>)
         else s)"

text \<open>The activity middleware that runs before every handler.\<close>

definition markActivity :: "env \<Rightarrow> session \<Rightarrow> session" where
  "markActivity env s = (if \<not> sessionExpired s then s\<lparr>lastActivity := nowMiddleware env\<rparr> else s)"

section \<open>Collaborator wrappers\<close>

definition transcribeBufferWithWhisper ::
  "env \<Rightarrow> string \<Rightarrow> string \<Rightarrow> string \<Rightarrow> error + string" where
  "transcribeBufferWithWhisper env buffer filename mime =
     (case whisperCreate env buffer filename mime of
        Inl e \<Rightarrow> Inl e
      | Inr txt \<Rightarrow> Inr (orEmpty txt))"

text \<open>\<^verbatim>\<open>s.slice(from, to)\<close> for a non-negative \<open>from\<close>; a negative \<open>to\<close> counts from the end.\<close>

definition jsSlice :: "string \<Rightarrow> nat \<Rightarrow> int \<Rightarrow> string" where
  "jsSlice s from to =
     (let stop = (if to < 0 then nat (int (length s) + to) else min (nat to) (length s))
      in take (stop - from) (drop from s))"

text \<open>\<^verbatim>\<open>s.indexOf(c)\<close>\<close>

definition indexOf :: "string \<Rightarrow> char \<Rightarrow> int" where
  "indexOf s c = (if c \<in> set s then int (length (takeWhile (\<lambda>x. x \<noteq> c) s)) else - 1)"

text \<open>The result is the base64 payload (the bytes of the buffer), the MIME type and the
  extension; \<^verbatim>\<open>Buffer.from(undefined, "base64")\<close> throws when there is no comma.\<close>

definition parseDataUrl :: "string \<Rightarrow> error + (string \<times> string \<times> string)" where
  "parseDataUrl dataUrl =
     (let header = takeWhile (\<lambda>c. c \<noteq> CHR '','') dataUrl;
          base64 = splitSecond CHR '','' dataUrl;
          m = jsSlice header 5 (indexOf header CHR '';'');
          mime = (if m = [] then ''audio/webm'' else m);
          ext = (case splitSecond CHR ''/'' mime of
                   None \<Rightarrow> ''webm''
                 | Some x \<Rightarrow> if x = [] then ''webm'' else x)
      in case base64 of
           None \<Rightarrow> Inl (''The first argument must be of type string or an instance of Buffer, ''
                        @ ''ArrayBuffer, or Array or an Array-like Object. Received undefined'')
         | Some b \<Rightarrow> Inr (b, mime, ext))"

definition callLocalSentiment :: "env \<Rightarrow> string \<Rightarrow> error + string" where
  "callLocalSentiment env txt =
     (case sentimentService env txt of
        Inl e \<Rightarrow> Inl e
      | Inr j \<Rightarrow> Inr (toLowerCase (orEmpty j)))"

definition callLocalMiaPredict :: "env \<Rightarrow> string \<Rightarrow> string \<Rightarrow> error + string" where
  "callLocalMiaPredict env txt sent =
     (case miaPredictService env txt sent of
        Inl e \<Rightarrow> Inl e
      | Inr j \<Rightarrow> Inr (toLowerCase (orEmpty j)))"

section \<open>Rolling summary and reply generation\<close>

text \<open>The result of a step that may throw, with the calls it made up to there.\<close>

definition maybeUpdateSummary :: "env \<Rightarrow> session \<Rightarrow> (error + session) \<times> call list" where
  "maybeUpdateSummary env s =
     (let historial = readJsonSafe (histFile s) [];
          serialized = JSON_stringify historial
      in if length serialized \<le> MAX_CONTEXT_CHARS then (Inr s, [])
         else
           let summaryCurrent = readJsonSafe (summaryFile s) None;
               resumenPrevio = summaryResumen summaryCurrent;
               p = SummaryPrompt resumenPrevio historial
           in case responsesCreate env p of
                Inl e \<Rightarrow> (Inl e, [Responses p])
              | Inr output_text \<Rightarrow>
                  (Inr (s\<lparr>summaryFile := Content (Some
                          \<lparr>resumen = trim (orEmpty output_text),
                           updatedAt = nowSummary env,
                           total_conversaciones = length (objectKeys historial)\<rparr>)\<rparr>),
                   [Responses p]))"

text \<open>The three values of the object that \<^verbatim>\<open>loadContextForLLM\<close> returns: \<^verbatim>\<open>resumen\<close>,
  \<^verbatim>\<open>recientes\<close>, \<^verbatim>\<open>total_conversaciones\<close>.\<close>

definition loadContextForLLM :: "session \<Rightarrow> string \<times> string \<times> nat" where
  "loadContextForLLM s =
     (let historial = readJsonSafe (histFile s) [];
          smry = readJsonSafe (summaryFile s) None;
          recent = formatRecentTurns historial
      in (summaryResumen smry, recent, length (objectKeys historial)))"

definition replyPrompt :: "session \<Rightarrow> string \<Rightarrow> string \<Rightarrow> string \<Rightarrow> prompt" where
  "replyPrompt s transcript sent emo =
     (case loadContextForLLM s of
        (res, recientes, count) \<Rightarrow>
          ReplyPrompt (if res = [] then ''(sin resumen a'' @ [CHR 0xFA] @ ''n)'' else res)
                      (if recientes = [] then ''(no hay historial reciente)'' else recientes)
                      transcript sent emo count)"

definition generateMiaReply ::
  "env \<Rightarrow> session \<Rightarrow> string \<Rightarrow> string \<Rightarrow> string \<Rightarrow> (error + string) \<times> call list" where
  "generateMiaReply env s transcript sent emo =
     (let p = replyPrompt s transcript sent emo
      in case responsesCreate env p of
           Inl e \<Rightarrow> (Inl e, [Responses p])
         | Inr output_text \<Rightarrow> (Inr (trim (orEmpty output_text)), [Responses p]))"

section \<open>The \<^verbatim>\<open>/reset\<close> and \<^verbatim>\<open>/chat\<close> endpoints\<close>

text \<open>
  The body sent back: the session-expired object, the reply of the audio flow
  (\<^verbatim>\<open>ok: true\<close> with transcript, the two labels and one message), a bare list of
  messages (greeting, key reminder, text chat), or status 500 with the error message.
\<close>

datatype response =
    SessionExpired
  | Reply string string string message
  | Messages "message list"
  | ServerError error

text \<open>\<^verbatim>\<open>POST /reset\<close> (it answers \<^verbatim>\<open>{ ok: true, reset: true }\<close>): the state it leaves.\<close>

definition postReset :: "env \<Rightarrow> session \<Rightarrow> session" where
  "postReset env s = resetSession (nowEnd env) (markActivity env s)"

text \<open>Lines 371 to 382: the two optional calls, each with its default label.\<close>

definition localAnalytics :: "env \<Rightarrow> string \<Rightarrow> string \<times> string" where
  "localAnalytics env transcript =
     (let sent = (case callLocalSentiment env transcript of
                    Inl e \<Rightarrow> ''neutral''
                  | Inr v \<Rightarrow> v);
          emo = (case callLocalMiaPredict env transcript sent of
                   Inl e \<Rightarrow> ''default''
                 | Inr v \<Rightarrow> v)
      in (sent, emo))"

text \<open>The messages of two errors of Node: \<^verbatim>\<open>fs.readFile\<close> on a file that is not there, and
  \<^verbatim>\<open>exec\<close> of the \<^verbatim>\<open>ffmpeg\<close> command of \<^verbatim>\<open>lipSyncMessage\<close> when it fails (the message goes on
  with what \<^verbatim>\<open>ffmpeg\<close> printed, which is left out here).\<close>

definition noSuchFile :: "string \<Rightarrow> error" where
  "noSuchFile path = ''ENOENT: no such file or directory, open '' @ [CHR 0x27] @ path @ [CHR 0x27]"

definition ffmpegFailed :: "nat \<Rightarrow> error" where
  "ffmpegFailed messageIndex =
     ''Command failed: ffmpeg -y -i audios/message_'' @ showNat messageIndex
       @ ''.mp3 audios/message_'' @ showNat messageIndex @ ''.wav''"

text \<open>Writing the file of message \<open>idx\<close> over what was there.\<close>

definition writeMp3 :: "nat \<Rightarrow> string \<Rightarrow> (nat \<times> string) list \<Rightarrow> (nat \<times> string) list" where
  "writeMp3 idx content files = (idx, content) # filter (\<lambda>f. fst f \<noteq> idx) files"

text \<open>
  \<^verbatim>\<open>voice.textToSpeech(apiKey, voiceID, fileName, text)\<close> of the package
  \<^verbatim>\<open>elevenlabs-node\<close> (version 1, the one with this positional call): the whole body of
  that function stands in a \<^verbatim>\<open>try\<close> whose \<^verbatim>\<open>catch\<close> only logs the error. So the promise
  always resolves: when the service answers with audio the file is written, when it
  answers with an error the file stays as it was, and nothing is thrown to the caller.
\<close>

definition voiceTextToSpeech :: "env \<Rightarrow> nat \<Rightarrow> string \<Rightarrow> session \<Rightarrow> session" where
  "voiceTextToSpeech env idx txt s =
     (case textToSpeech env (''audios/message_'' @ showNat idx @ ''.mp3'') txt of
        Inl e \<Rightarrow> s
      | Inr content \<Rightarrow> s\<lparr>messageMp3 := writeMp3 idx content (messageMp3 s)\<rparr>)"

text \<open>\<^verbatim>\<open>lipSyncMessage\<close>: \<^verbatim>\<open>ffmpeg\<close> fails when the file of the message is not there.\<close>

definition lipSyncMessage :: "env \<Rightarrow> nat \<Rightarrow> session \<Rightarrow> error + string" where
  "lipSyncMessage env messageIndex s =
     (case map_of (messageMp3 s) messageIndex of
        None \<Rightarrow> Inl (ffmpegFailed messageIndex)
      | Some content \<Rightarrow> lipSync env messageIndex content)"

text \<open>Lines 396 to 401 (and the loop body of the text chat): speech, lip sync, and the two
  files read back. The state that is left holds the file as the speech call left it.\<close>

definition synthesize ::
  "env \<Rightarrow> nat \<Rightarrow> string \<Rightarrow> session \<Rightarrow> (error + string \<times> string) \<times> session \<times> call list" where
  "synthesize env idx txt s =
     (let fileName = ''audios/message_'' @ showNat idx @ ''.mp3'';
          s1 = voiceTextToSpeech env idx txt s;
          onDisk = map_of (messageMp3 s1) idx;
          calls = [TextToSpeech fileName txt, LipSync idx onDisk]
      in case lipSyncMessage env idx s1 of
           Inl e \<Rightarrow> (Inl e, s1, calls)
         | Inr ls \<Rightarrow>
             (case onDisk of
                None \<Rightarrow> (Inl (noSuchFile fileName), s1, calls)
              | Some au \<Rightarrow> (Inr (au, ls), s1, calls)))"

text \<open>The template \<^verbatim>\<open>`conversacion_${nextIndex}`\<close>\<close>

definition conversacionKey :: "nat \<Rightarrow> string" where
  "conversacionKey i = ''conversacion_'' @ showNat i"

definition nextIndexOf :: "historial \<Rightarrow> nat" where
  "nextIndexOf historialActual =
     length (filter (\<lambda>k. startsWith k ''conversacion_'') (objectKeys historialActual)) + 1"

definition chatAudio :: "env \<Rightarrow> string \<Rightarrow> session \<Rightarrow> response \<times> session \<times> call list" where
  "chatAudio env userMessage s =
     (case parseDataUrl userMessage of
        Inl e \<Rightarrow> (ServerError e, s, [])
      | Inr (buffer, mime, ext) \<Rightarrow>
     (case transcribeBufferWithWhisper env buffer (''audio.'' @ ext) mime of
        Inl e \<Rightarrow> (ServerError e, s, [Whisper buffer (''audio.'' @ ext) mime])
      | Inr transcript \<Rightarrow>
     (case localAnalytics env transcript of (sent, emo) \<Rightarrow>
      let calls1 = [Whisper buffer (''audio.'' @ ext) mime, Sentiment transcript,
                    MiaPredict transcript sent];
          historialActual = readJsonSafe (histFile s) [];
          nextIndex = nextIndexOf historialActual;
          nextKey = conversacionKey nextIndex
      in
     (case generateMiaReply env s transcript sent emo of
        (Inl e, calls2) \<Rightarrow> (ServerError e, s, calls1 @ calls2)
      | (Inr reply, calls2) \<Rightarrow>
      let vis = mapEmotionToVisuals (Some emo) (int nextIndex - 1)
      in
     (case synthesize env 0 reply s of
        (Inl e, s0, calls3) \<Rightarrow> (ServerError e, s0, calls1 @ calls2 @ calls3)
      | (Inr (au, ls), s0, calls3) \<Rightarrow>
      let s1 = s0\<lparr>histFile := Content (objectSet historialActual nextKey
                   \<lparr>user_responde = transcript, sentimiento = sent,
                    mia_emocion = emo, mia_text = reply\<rparr>)\<rparr>
      in
     (case maybeUpdateSummary env s1 of
        (Inl e, calls4) \<Rightarrow> (ServerError e, s1, calls1 @ calls2 @ calls3 @ calls4)
      | (Inr s2, calls4) \<Rightarrow>
          (Reply transcript sent emo
             \<lparr>facialExpression = facialExpression vis, animation = animation vis,
              msgText = reply, audio = Some au, lipsync = Some ls\<rparr>,
           s2\<lparr>lastActivity := nowEnd env\<rparr>,
           calls1 @ calls2 @ calls3 @ calls4)))))))"

definition chatGreeting :: "env \<Rightarrow> session \<Rightarrow> response \<times> session \<times> call list" where
  "chatGreeting env s =
     (let s1 = s\<lparr>lastActivity := nowEnd env\<rparr>
      in case introAssets s of
           None \<Rightarrow> (ServerError (noSuchFile ''audios/intro_0.wav''), s1, [])
         | Some (wav, json) \<Rightarrow>
             (Messages [\<lparr>facialExpression = ''smile'', animation = ''Talking_1'',
                         msgText = ''Hey dear... How was your day?'',
                         audio = Some wav, lipsync = Some json\<rparr>], s1, []))"

definition keyMissing :: "env \<Rightarrow> bool" where
  "keyMissing env =
     (elevenLabsApiKey env = None \<or> elevenLabsApiKey env = Some [] \<or> openaiApiKey env = ''-'')"

definition chatKeyReminder :: "env \<Rightarrow> session \<Rightarrow> response \<times> session \<times> call list" where
  "chatKeyReminder env s =
     (Messages [\<lparr>facialExpression = ''angry'', animation = ''Angry'',
                 msgText = ''Please my dear, don'' @ [CHR 0x27] @ ''t forget to add your API keys!'',
                 audio = None, lipsync = None\<rparr>],
      s\<lparr>lastActivity := nowEnd env\<rparr>, [])"

text \<open>The loop over the messages of the text chat, from index \<open>i\<close>.\<close>

fun synthesizeAll ::
  "env \<Rightarrow> nat \<Rightarrow> message list \<Rightarrow> session \<Rightarrow> (error + message list) \<times> session \<times> call list" where
  "synthesizeAll env i [] s = (Inr [], s, [])"
| "synthesizeAll env i (m # ms) s =
     (case synthesize env i (msgText m) s of
        (Inl e, s1, cs) \<Rightarrow> (Inl e, s1, cs)
      | (Inr (au, ls), s1, cs) \<Rightarrow>
          (case synthesizeAll env (i + 1) ms s1 of
             (Inl e, s2, cs') \<Rightarrow> (Inl e, s2, cs @ cs')
           | (Inr ms', s2, cs') \<Rightarrow>
               (Inr (m\<lparr>audio := Some au, lipsync := Some ls\<rparr> # ms'), s2, cs @ cs')))"

definition chatText :: "env \<Rightarrow> string \<Rightarrow> session \<Rightarrow> response \<times> session \<times> call list" where
  "chatText env userMessage s =
     (case chatCompletions env userMessage of
        Inl e \<Rightarrow> (ServerError e, s, [ChatCompletions userMessage])
      | Inr messages \<Rightarrow>
          (case synthesizeAll env 0 messages s of
             (Inl e, s1, cs) \<Rightarrow> (ServerError e, s1, ChatCompletions userMessage # cs)
           | (Inr ms, s1, cs) \<Rightarrow>
               (Messages ms, s1\<lparr>lastActivity := nowEnd env\<rparr>, ChatCompletions userMessage # cs)))"

text \<open>The test that opens the handler: the flag, or the idle time at that moment.\<close>

definition expiredAtGate :: "env \<Rightarrow> session \<Rightarrow> bool" where
  "expiredAtGate env s = (sessionExpired s \<or> nowGate env - lastActivity s \<ge> INACTIVITY_MS)"

text \<open>
  The handler of \<^verbatim>\<open>POST /chat\<close>. \<open>userMessage\<close> is \<^verbatim>\<open>req.body.message\<close>: a string, or
  \<open>None\<close> when it is missing or \<^verbatim>\<open>null\<close> (a message that is a number, a boolean, an
  array or an object is outside the model). \<^verbatim>\<open>ensureDirs\<close> creates the two directories
  when they are missing and leaves their files alone.
\<close>

definition chatHandler :: "env \<Rightarrow> string option \<Rightarrow> session \<Rightarrow> response \<times> session \<times> call list" where
  "chatHandler env userMessage s =
     (if expiredAtGate env s then (SessionExpired, resetSession (nowEnd env) s, [])
      else case userMessage of
             None \<Rightarrow> chatGreeting env s
           | Some m \<Rightarrow>
               if startsWith m ''data:audio'' then chatAudio env m s
               else if m = [] then chatGreeting env s
               else if keyMissing env then chatKeyReminder env s
               else chatText env m s)"

text \<open>A whole request to \<^verbatim>\<open>/chat\<close>: the middleware, then the handler.\<close>

definition chat :: "env \<Rightarrow> string option \<Rightarrow> session \<Rightarrow> response \<times> session \<times> call list" where
  "chat env userMessage s = chatHandler env userMessage (markActivity env s)"

section \<open>Sequences of requests and observations\<close>


text \<open>The response with \<^verbatim>\<open>ok: true\<close>: a reply of the audio flow.\<close>

fun isReply :: "response \<Rightarrow> bool" where
  "isReply (Reply t sent emo msg) = True"
| "isReply r = False"


text \<open>The history a state holds, as every reader in the server sees it.\<close>

definition historialOf :: "session \<Rightarrow> historial" where
  "historialOf s = readJsonSafe (histFile s) []"

text \<open>The error a call of an essential stage (transcription, reply generation, speech
  synthesis, lip sync) was answered with, if it was. The lip sync of a message whose audio
  file is missing is answered with the error of \<^verbatim>\<open>ffmpeg\<close>.\<close>

fun essentialError :: "env \<Rightarrow> call \<Rightarrow> error option" where
  "essentialError env (Whisper buffer filename mime) =
     (case whisperCreate env buffer filename mime of Inl e \<Rightarrow> Some e | Inr x \<Rightarrow> None)"
| "essentialError env (Responses (ReplyPrompt a b c d e n)) =
     (case responsesCreate env (ReplyPrompt a b c d e n) of Inl e \<Rightarrow> Some e | Inr x \<Rightarrow> None)"
| "essentialError env (TextToSpeech fileName txt) =
     (case textToSpeech env fileName txt of Inl e \<Rightarrow> Some e | Inr x \<Rightarrow> None)"
| "essentialError env (LipSync idx onDisk) =
     (case onDisk of
        None \<Rightarrow> Some (ffmpegFailed idx)
      | Some content \<Rightarrow> (case lipSync env idx content of Inl e \<Rightarrow> Some e | Inr x \<Rightarrow> None))"
| "essentialError env c = None"

text \<open>The error the summary call was answered with, if it was.\<close>

fun summaryError :: "env \<Rightarrow> call \<Rightarrow> error option" where
  "summaryError env (Responses (SummaryPrompt previous historial)) =
     (case responsesCreate env (SummaryPrompt previous historial) of
        Inl e \<Rightarrow> Some e | Inr x \<Rightarrow> None)"
| "summaryError env c = None"

text \<open>The pair of visuals a reply of the audio flow carries.\<close>

fun replyVisuals :: "response \<Rightarrow> (string \<times> string) option" where
  "replyVisuals (Reply t sent emo msg) = Some (facialExpression msg, animation msg)"
| "replyVisuals r = None"

text \<open>The pairs of visuals of the messages of a response that carries a list of messages
  (the greeting, the key reminder, the text chat).\<close>

definition visualsOf :: "message \<Rightarrow> string \<times> string" where
  "visualsOf msg = (facialExpression msg, animation msg)"

fun messagesVisuals :: "response \<Rightarrow> (string \<times> string) list" where
  "messagesVisuals (Messages ms) = map visualsOf ms"
| "messagesVisuals r = []"

text \<open>The table of facial expressions, keyed by the lower-case label.\<close>

definition expressionTable :: "(string \<times> string) list" where
  "expressionTable =
     [(''alegr'' @ [CHR 0xED] @ ''a'', ''smile''), (''amor'', ''smile''), (''tristeza'', ''sad''),
      (''ira'', ''angry''), (''miedo'', ''surprised''), (''sorpresa'', ''surprised'')]"

text \<open>The two canned messages of the handler.\<close>

definition greetingMessage :: "string \<Rightarrow> string \<Rightarrow> message" where
  "greetingMessage wav json =
     \<lparr>facialExpression = ''smile'', animation = ''Talking_1'',
      msgText = ''Hey dear... How was your day?'', audio = Some wav, lipsync = Some json\<rparr>"

definition keyReminderMessage :: message where
  "keyReminderMessage =
     \<lparr>facialExpression = ''angry'', animation = ''Angry'',
      msgText = ''Please my dear, don'' @ [CHR 0x27] @ ''t forget to add your API keys!'',
      audio = None, lipsync = None\<rparr>"

section \<open>Concrete sessions and environments\<close>

text \<open>An environment in which both credentials are set and every collaborator answers.\<close>

definition demoEnv :: env where
  "demoEnv = \<lparr>openaiApiKey = ''sk-demo'', elevenLabsApiKey = Some ''el-demo'',
     nowMiddleware = 1000, nowGate = 1001, nowSummary = 1002, nowEnd = 1003,
     whisperCreate = (\<lambda>buffer filename mime. Inr (Some ''hola'')),
     sentimentService = (\<lambda>t. Inr (Some ''Positivo'')),
     miaPredictService = (\<lambda>t sent. Inr (Some ''AMOR'')),
     responsesCreate = (\<lambda>p. Inr (Some '' Me alegra. '')),
     textToSpeech = (\<lambda>fileName t. Inr ''UklGRg==''),
     lipSync = (\<lambda>idx content. Inr ''{}''),
     chatCompletions = (\<lambda>m. Inr [])\<rparr>"

definition emptySession :: session where
  "emptySession = \<lparr>lastActivity = 0, sessionExpired = False, histFile = Content [],
     summaryFile = Content None, introAssets = Some (''UklGRg=='', ''{}''), messageMp3 = []\<rparr>"

definition demoAudio :: string where
  "demoAudio = ''data:audio/webm;base64,AAAA''"

text \<open>A session with one turn, and the audio of its reply on disk, whose flag is set, as it
  is while the watchdog wipes.\<close>

definition flaggedSession :: session where
  "flaggedSession = \<lparr>lastActivity = 0, sessionExpired = True,
     histFile = Content [(''conversacion_1'',
        \<lparr>user_responde = ''hola'', sentimiento = ''positivo'', mia_emocion = ''amor'',
         mia_text = ''Me alegra.''\<rparr>)],
     summaryFile = Content None, introAssets = Some (''UklGRg=='', ''{}''),
     messageMp3 = [(0, ''SUQzBAAAAAAA'')]\<rparr>"

text \<open>A session with one turn, and the audio of its reply on disk, whose last activity is
  at time 0.\<close>

definition staleSession :: session where
  "staleSession = \<lparr>lastActivity = 0, sessionExpired = False,
     histFile = Content [(''conversacion_1'',
        \<lparr>user_responde = ''hola'', sentimiento = ''positivo'', mia_emocion = ''amor'',
         mia_text = ''Me alegra.''\<rparr>)],
     summaryFile = Content None, introAssets = Some (''UklGRg=='', ''{}''),
     messageMp3 = [(0, ''SUQzBAAAAAAA'')]\<rparr>"

text \<open>Neither credential is set, and the transcription service rejects the placeholder key.\<close>

definition noKeyEnv :: env where
  "noKeyEnv = demoEnv\<lparr>openaiApiKey := ''-'', elevenLabsApiKey := None,
     whisperCreate := (\<lambda>buffer filename mime. Inl ''401 Incorrect API key provided: -'')\<rparr>"

text \<open>The same collaborators, a little more than five minutes later.\<close>

definition laterEnv :: env where
  "laterEnv = demoEnv\<lparr>nowMiddleware := 301000, nowGate := 301001, nowSummary := 301002,
     nowEnd := 301003\<rparr>"

text \<open>Both optional services are down.\<close>

definition failingAnalyticsEnv :: env where
  "failingAnalyticsEnv = demoEnv\<lparr>
     whisperCreate := (\<lambda>buffer filename mime. Inr (Some (''tengo un mal d'' @ [CHR 0xED] @ ''a''))),
     sentimentService := (\<lambda>t. Inl ''sentiment 500''),
     miaPredictService := (\<lambda>t sent. Inl ''mia_predict 503'')\<rparr>"

text \<open>The speech service refuses every call.\<close>

definition failingSpeechEnv :: env where
  "failingSpeechEnv = demoEnv\<lparr>textToSpeech := (\<lambda>fileName t. Inl ''401 quota_exceeded'')\<rparr>"

text \<open>The chat completion of the text chat answers with one message.\<close>

definition chattyEnv :: env where
  "chattyEnv = demoEnv\<lparr>chatCompletions := (\<lambda>m.
     Inr [\<lparr>facialExpression = ''funnyFace'', animation = ''Laughing'',
           msgText = ''Ja ja.'', audio = None, lipsync = None\<rparr>])\<rparr>"

text \<open>The text generation service refuses every call.\<close>

definition failingGenerationEnv :: env where
  "failingGenerationEnv = demoEnv\<lparr>responsesCreate := (\<lambda>p. Inl ''429 rate limit'')\<rparr>"

text \<open>A transcript of 10001 characters, a session whose history holds it, and an
  environment in which it is transcribed and the summary call fails.\<close>

definition longText :: string where
  "longText = replicate 10001 (CHR ''a'')"

definition bigSession :: session where
  "bigSession = \<lparr>lastActivity = 0, sessionExpired = False,
     histFile = Content [(''conversacion_1'',
        \<lparr>user_responde = longText, sentimiento = ''neutral'', mia_emocion = ''default'',
         mia_text = ''Te escucho.''\<rparr>)],
     summaryFile = Content (Some \<lparr>resumen = ''Saludo inicial.'', updatedAt = 500,
        total_conversaciones = 0\<rparr>),
     introAssets = Some (''UklGRg=='', ''{}''), messageMp3 = [(0, ''SUQzBAAAAAAA'')]\<rparr>"

definition verboseEnv :: env where
  "verboseEnv = demoEnv\<lparr>
     whisperCreate := (\<lambda>buffer filename mime. Inr (Some longText)),
     responsesCreate := (\<lambda>p. case p of
         ReplyPrompt a b c d e n \<Rightarrow> Inr (Some ''Te escucho.'')
       | SummaryPrompt previous historial \<Rightarrow> Inl ''503 summary unavailable'')\<rparr>"

text \<open>A history of ten turns.\<close>

definition tenTurns :: historial where
  "tenTurns = map (\<lambda>i. (conversacionKey i,
       \<lparr>user_responde = ''u'' @ showNat i, sentimiento = ''neutral'', mia_emocion = ''default'',
        mia_text = ''m'' @ showNat i\<rparr>)) [1..<11]"

definition tenSession :: session where
  "tenSession = emptySession\<lparr>histFile := Content tenTurns\<rparr>"

section \<open>Decimal keys\<close>

lemma digitVal_digit: "d < 10 \<Longrightarrow> digitVal (''0123456789'' ! d) = d"
proof -
  assume "d < 10"
  then have "d \<in> {0,1,2,3,4,5,6,7,8,9}" by auto
  then show ?thesis by (auto simp: digitVal_def)
qed

lemma isDigit_digit: "d < 10 \<Longrightarrow> isDigit (''0123456789'' ! d)"
proof -
  assume "d < 10"
  then have "d \<in> {0,1,2,3,4,5,6,7,8,9}" by auto
  then show ?thesis by (auto simp: isDigit_def)
qed

lemma showNat_digits: "c \<in> set (showNat n) \<Longrightarrow> isDigit c"
proof (induction n arbitrary: c rule: showNat.induct)
  case (1 n)
  show ?case
  proof (cases "n < 10")
    case True
    with "1.prems" show ?thesis by (simp add: showNat.simps [of n] isDigit_digit)
  next
    case False
    with "1.prems" "1.IH" show ?thesis
      by (auto simp: showNat.simps [of n] isDigit_digit)
  qed
qed

lemma showNat_nonempty: "showNat n \<noteq> []"
  by (simp add: showNat.simps [of n])

lemma showNat_value: "foldl (\<lambda>a c. 10 * a + digitVal c) 0 (showNat n) = n"
proof (induction n rule: showNat.induct)
  case (1 n)
  show ?case
  proof (cases "n < 10")
    case True
    then show ?thesis by (simp add: showNat.simps [of n] digitVal_digit)
  next
    case False
    with "1.IH" show ?thesis
      by (simp add: showNat.simps [of n] digitVal_digit)
  qed
qed

lemma isDigit_not_space: "isDigit c \<Longrightarrow> \<not> isWhiteSpace c"
  by (auto simp: isDigit_def isWhiteSpace_def)

lemma isDigit_not_sign: "isDigit c \<Longrightarrow> c \<noteq> CHR ''-'' \<and> c \<noteq> CHR ''+'' \<and> c \<noteq> CHR ''_''"
  by (auto simp: isDigit_def)

lemma parseInt10_digits:
  assumes "ds \<noteq> []" and "\<forall>c \<in> set ds. isDigit c"
  shows "parseInt10 ds = Some (int (foldl (\<lambda>a c. 10 * a + digitVal c) 0 ds))"
proof -
  obtain d r where ds: "ds = d # r" using assms(1) by (cases ds) auto
  have d: "isDigit d" using assms(2) ds by simp
  have t: "dropWhile isWhiteSpace ds = ds" using d ds isDigit_not_space by simp
  have tw: "takeWhile isDigit ds = ds" using assms(2) by (simp add: takeWhile_eq_all_conv)
  have hd: "hd ds \<noteq> CHR ''-''" "hd ds \<noteq> CHR ''+''"
    using ds isDigit_not_sign [OF d] by simp_all
  show ?thesis
    unfolding parseInt10_def t Let_def
    using hd assms(1) by (simp add: tw)
qed

lemma parseInt10_showNat: "parseInt10 (showNat n) = Some (int n)"
  using parseInt10_digits [of "showNat n"] showNat_nonempty showNat_digits showNat_value
  by simp

lemma splitSecond_key: "splitSecond CHR ''_'' (''conversacion_'' @ showNat n) = Some (showNat n)"
proof -
  have "takeWhile (\<lambda>c. c \<noteq> CHR ''_'') (showNat n) = showNat n"
    using showNat_digits isDigit_not_sign by (fastforce simp: takeWhile_eq_all_conv)
  then show ?thesis by (simp add: splitSecond_def)
qed

lemma turnNumber_key_text: "turnNumber (''conversacion_'' @ showNat n) = Some (int n)"
  unfolding turnNumber_def splitSecond_key
  by (simp add: showNat_nonempty parseInt10_showNat)

lemma turnNumber_key: "turnNumber (conversacionKey n) = Some (int n)"
  unfolding conversacionKey_def by (rule turnNumber_key_text)

lemma conversacionKey_inj: "conversacionKey i = conversacionKey j \<Longrightarrow> i = j"
proof -
  assume "conversacionKey i = conversacionKey j"
  then have "turnNumber (conversacionKey i) = turnNumber (conversacionKey j)" by simp
  then show ?thesis by (simp only: turnNumber_key option.inject of_nat_eq_iff)
qed

lemma startsWith_key: "startsWith (conversacionKey i) ''conversacion_''"
  by (simp add: startsWith_def conversacionKey_def)

section \<open>History keys\<close>




lemma maybeUpdateSummary_frame:
  assumes "maybeUpdateSummary env s = (Inr s', calls)"
  shows "histFile s' = histFile s" and "lastActivity s' = lastActivity s"
    and "sessionExpired s' = sessionExpired s" and "introAssets s' = introAssets s"
    and "messageMp3 s' = messageMp3 s"
  using assms
  by (auto simp: maybeUpdateSummary_def Let_def split: if_splits sum.splits)

lemma markActivity_frame:
  "histFile (markActivity env s) = histFile s"
  "summaryFile (markActivity env s) = summaryFile s"
  "introAssets (markActivity env s) = introAssets s"
  "sessionExpired (markActivity env s) = sessionExpired s"
  "messageMp3 (markActivity env s) = messageMp3 s"
  by (simp_all add: markActivity_def)

section \<open>The outcomes of the audio flow\<close>

lemma showNat_0: "showNat 0 = ''0''"
  by (simp add: showNat.simps)

lemma voiceTextToSpeech_frame [simp]:
  "histFile (voiceTextToSpeech env idx t s) = histFile s"
  "summaryFile (voiceTextToSpeech env idx t s) = summaryFile s"
  "lastActivity (voiceTextToSpeech env idx t s) = lastActivity s"
  "sessionExpired (voiceTextToSpeech env idx t s) = sessionExpired s"
  "introAssets (voiceTextToSpeech env idx t s) = introAssets s"
  by (simp_all add: voiceTextToSpeech_def split: sum.splits)

lemma historialOf_voiceTextToSpeech [simp]:
  "historialOf (voiceTextToSpeech env idx t s) = historialOf s"
  by (simp add: historialOf_def)

lemma replyPrompt_voiceTextToSpeech [simp]:
  "replyPrompt (voiceTextToSpeech env idx t s) = replyPrompt s"
  by (rule ext)+ (simp add: replyPrompt_def loadContextForLLM_def)

lemma map_of_writeMp3: "map_of (writeMp3 idx content files) idx = Some content"
  by (simp add: writeMp3_def)

lemma voiceTextToSpeech_ok:
  "textToSpeech env (''audios/message_'' @ showNat idx @ ''.mp3'') t = Inr au \<Longrightarrow>
   map_of (messageMp3 (voiceTextToSpeech env idx t s)) idx = Some au"
  by (simp add: voiceTextToSpeech_def map_of_writeMp3)

lemma voiceTextToSpeech_failed:
  "textToSpeech env (''audios/message_'' @ showNat idx @ ''.mp3'') t = Inl e \<Longrightarrow>
   voiceTextToSpeech env idx t s = s"
  by (simp add: voiceTextToSpeech_def)

lemma lipSyncMessage_essential:
  "lipSyncMessage env idx s = Inl e \<longleftrightarrow>
   essentialError env (LipSync idx (map_of (messageMp3 s) idx)) = Some e"
  by (auto simp: lipSyncMessage_def split: option.splits sum.splits)

lemma lipSyncMessage_ok:
  "lipSyncMessage env idx s = Inr ls \<longleftrightarrow>
   (\<exists>au. map_of (messageMp3 s) idx = Some au \<and> lipSync env idx au = Inr ls)"
  by (auto simp: lipSyncMessage_def split: option.splits)

lemma synthesize_cases:
  "synthesize env idx t s =
     (let s0 = voiceTextToSpeech env idx t s;
          calls = [TextToSpeech (''audios/message_'' @ showNat idx @ ''.mp3'') t,
                   LipSync idx (map_of (messageMp3 s0) idx)]
      in case lipSyncMessage env idx s0 of
           Inl e \<Rightarrow> (Inl e, s0, calls)
         | Inr ls \<Rightarrow> (Inr (the (map_of (messageMp3 s0) idx), ls), s0, calls))"
  by (cases "map_of (messageMp3 (voiceTextToSpeech env idx t s)) idx")
     (simp_all add: synthesize_def Let_def lipSyncMessage_def split: sum.splits)

lemma synthesize_0:
  "synthesize env 0 t s =
     (let s0 = voiceTextToSpeech env 0 t s;
          calls = [TextToSpeech ''audios/message_0.mp3'' t, LipSync 0 (map_of (messageMp3 s0) 0)]
      in case lipSyncMessage env 0 s0 of
           Inl e \<Rightarrow> (Inl e, s0, calls)
         | Inr ls \<Rightarrow> (Inr (the (map_of (messageMp3 s0) 0), ls), s0, calls))"
  using synthesize_cases [of env 0 t s] by (simp add: showNat_0)

lemma chatAudio_outcomes [case_names parse whisper generate lipsync summary reply]:
  fixes env :: env and m :: string and s :: session
  obtains
    (parse) e where
      "parseDataUrl m = Inl e"
      "chatAudio env m s = (ServerError e, s, [])"
  | (whisper) buffer mime ext e where
      "parseDataUrl m = Inr (buffer, mime, ext)"
      "whisperCreate env buffer (''audio.'' @ ext) mime = Inl e"
      "chatAudio env m s = (ServerError e, s, [Whisper buffer (''audio.'' @ ext) mime])"
  | (generate) buffer mime ext t sent emo e where
      "parseDataUrl m = Inr (buffer, mime, ext)"
      "transcribeBufferWithWhisper env buffer (''audio.'' @ ext) mime = Inr t"
      "localAnalytics env t = (sent, emo)"
      "responsesCreate env (replyPrompt s t sent emo) = Inl e"
      "chatAudio env m s =
         (ServerError e, s,
          [Whisper buffer (''audio.'' @ ext) mime, Sentiment t, MiaPredict t sent,
           Responses (replyPrompt s t sent emo)])"
  | (lipsync) buffer mime ext t sent emo out s0 e where
      "parseDataUrl m = Inr (buffer, mime, ext)"
      "transcribeBufferWithWhisper env buffer (''audio.'' @ ext) mime = Inr t"
      "localAnalytics env t = (sent, emo)"
      "responsesCreate env (replyPrompt s t sent emo) = Inr out"
      "s0 = voiceTextToSpeech env 0 (trim (orEmpty out)) s"
      "lipSyncMessage env 0 s0 = Inl e"
      "chatAudio env m s =
         (ServerError e, s0,
          [Whisper buffer (''audio.'' @ ext) mime, Sentiment t, MiaPredict t sent,
           Responses (replyPrompt s t sent emo),
           TextToSpeech ''audios/message_0.mp3'' (trim (orEmpty out)),
           LipSync 0 (map_of (messageMp3 s0) 0)])"
  | (summary) buffer mime ext t sent emo out s0 au ls s1 e calls4 where
      "parseDataUrl m = Inr (buffer, mime, ext)"
      "transcribeBufferWithWhisper env buffer (''audio.'' @ ext) mime = Inr t"
      "localAnalytics env t = (sent, emo)"
      "responsesCreate env (replyPrompt s t sent emo) = Inr out"
      "s0 = voiceTextToSpeech env 0 (trim (orEmpty out)) s"
      "map_of (messageMp3 s0) 0 = Some au"
      "lipSync env 0 au = Inr ls"
      "s1 = s0\<lparr>histFile := Content (objectSet (historialOf s)
                   (conversacionKey (nextIndexOf (historialOf s)))
                   \<lparr>user_responde = t, sentimiento = sent, mia_emocion = emo,
                    mia_text = trim (orEmpty out)\<rparr>)\<rparr>"
      "maybeUpdateSummary env s1 = (Inl e, calls4)"
      "chatAudio env m s =
         (ServerError e, s1,
          [Whisper buffer (''audio.'' @ ext) mime, Sentiment t, MiaPredict t sent,
           Responses (replyPrompt s t sent emo),
           TextToSpeech ''audios/message_0.mp3'' (trim (orEmpty out)), LipSync 0 (Some au)] @ calls4)"
  | (reply) buffer mime ext t sent emo out s0 au ls s1 s2 calls4 where
      "parseDataUrl m = Inr (buffer, mime, ext)"
      "transcribeBufferWithWhisper env buffer (''audio.'' @ ext) mime = Inr t"
      "localAnalytics env t = (sent, emo)"
      "responsesCreate env (replyPrompt s t sent emo) = Inr out"
      "s0 = voiceTextToSpeech env 0 (trim (orEmpty out)) s"
      "map_of (messageMp3 s0) 0 = Some au"
      "lipSync env 0 au = Inr ls"
      "s1 = s0\<lparr>histFile := Content (objectSet (historialOf s)
                   (conversacionKey (nextIndexOf (historialOf s)))
                   \<lparr>user_responde = t, sentimiento = sent, mia_emocion = emo,
                    mia_text = trim (orEmpty out)\<rparr>)\<rparr>"
      "maybeUpdateSummary env s1 = (Inr s2, calls4)"
      "chatAudio env m s =
         (Reply t sent emo
            \<lparr>facialExpression =
               facialExpression (mapEmotionToVisuals (Some emo) (int (nextIndexOf (historialOf s)) - 1)),
             animation = rotatingTalkingAnimation (int (nextIndexOf (historialOf s)) - 1),
             msgText = trim (orEmpty out), audio = Some au, lipsync = Some ls\<rparr>,
          s2\<lparr>lastActivity := nowEnd env\<rparr>,
          [Whisper buffer (''audio.'' @ ext) mime, Sentiment t, MiaPredict t sent,
           Responses (replyPrompt s t sent emo),
           TextToSpeech ''audios/message_0.mp3'' (trim (orEmpty out)), LipSync 0 (Some au)] @ calls4)"
proof (cases "parseDataUrl m")
  case (Inl e)
  then show ?thesis using parse by (simp add: chatAudio_def)
next
  case (Inr p)
  then obtain buffer mime ext where p: "parseDataUrl m = Inr (buffer, mime, ext)"
    by (cases p) auto
  show ?thesis
  proof (cases "whisperCreate env buffer (''audio.'' @ ext) mime")
    case (Inl e)
    then show ?thesis using whisper [OF p] p
      by (simp add: chatAudio_def transcribeBufferWithWhisper_def)
  next
    case (Inr wtext)
    define t where "t = orEmpty wtext"
    have w: "transcribeBufferWithWhisper env buffer (''audio.'' @ ext) mime = Inr t"
      using Inr by (simp add: transcribeBufferWithWhisper_def t_def)
    obtain sent emo where la: "localAnalytics env t = (sent, emo)"
      by (cases "localAnalytics env t") auto
    show ?thesis
    proof (cases "responsesCreate env (replyPrompt s t sent emo)")
      case (Inl e)
      then show ?thesis using generate [OF p w la] p w la
        by (simp add: chatAudio_def generateMiaReply_def Let_def)
    next
      case out: (Inr out)
      define s0 where "s0 = voiceTextToSpeech env 0 (trim (orEmpty out)) s"
      show ?thesis
      proof (cases "lipSyncMessage env 0 s0")
        case (Inl e)
        then show ?thesis using lipsync [OF p w la out s0_def] p w la out
          by (simp add: chatAudio_def generateMiaReply_def Let_def synthesize_0 s0_def)
      next
        case lsm: (Inr ls)
        then obtain au where au: "map_of (messageMp3 s0) 0 = Some au"
          and ls: "lipSync env 0 au = Inr ls"
          by (auto simp: lipSyncMessage_ok)
        define s1 where "s1 = s0\<lparr>histFile := Content (objectSet (historialOf s)
                 (conversacionKey (nextIndexOf (historialOf s)))
                 \<lparr>user_responde = t, sentimiento = sent, mia_emocion = emo,
                  mia_text = trim (orEmpty out)\<rparr>)\<rparr>"
        obtain r calls4 where mu: "maybeUpdateSummary env s1 = (r, calls4)"
          by (cases "maybeUpdateSummary env s1") auto
        have au': "map_of (messageMp3 (voiceTextToSpeech env 0 (trim (orEmpty out)) s)) 0 = Some au"
          and lsm': "lipSyncMessage env 0 (voiceTextToSpeech env 0 (trim (orEmpty out)) s) = Inr ls"
          and mu': "maybeUpdateSummary env
              (voiceTextToSpeech env 0 (trim (orEmpty out)) s
                 \<lparr>histFile := Content (objectSet (readJsonSafe (histFile s) [])
                    (conversacionKey (nextIndexOf (readJsonSafe (histFile s) [])))
                    \<lparr>user_responde = t, sentimiento = sent, mia_emocion = emo,
                     mia_text = trim (orEmpty out)\<rparr>)\<rparr>) = (r, calls4)"
          using au lsm mu by (simp_all add: s0_def s1_def historialOf_def)
        show ?thesis
        proof (cases r)
          case (Inl e)
          with mu have mue: "maybeUpdateSummary env s1 = (Inl e, calls4)" by simp
          show ?thesis using summary [OF p w la out s0_def au ls s1_def mue] p w la out au' lsm' mu' Inl
            by (simp add: chatAudio_def generateMiaReply_def Let_def synthesize_0
                  historialOf_def s1_def s0_def)
        next
          case (Inr s2)
          with mu have mue: "maybeUpdateSummary env s1 = (Inr s2, calls4)" by simp
          show ?thesis using reply [OF p w la out s0_def au ls s1_def mue] p w la out au' lsm' mu' Inr
            by (simp add: chatAudio_def generateMiaReply_def Let_def synthesize_0
                  historialOf_def s1_def s0_def mapEmotionToVisuals_def)
        qed
      qed
    qed
  qed
qed

section \<open>The branches of the handler\<close>

lemma chat_expired:
  "expiredAtGate env (markActivity env s) \<Longrightarrow>
   chat env um s = (SessionExpired, resetSession (nowEnd env) (markActivity env s), [])"
  by (simp add: chat_def chatHandler_def)

lemma chat_audio:
  "\<not> expiredAtGate env (markActivity env s) \<Longrightarrow> startsWith m ''data:audio'' \<Longrightarrow>
   chat env (Some m) s = chatAudio env m (markActivity env s)"
  by (simp add: chat_def chatHandler_def)

lemma chat_greeting:
  "\<not> expiredAtGate env (markActivity env s) \<Longrightarrow> um = None \<or> um = Some [] \<Longrightarrow>
   chat env um s = chatGreeting env (markActivity env s)"
  by (auto simp: chat_def chatHandler_def startsWith_def)

lemma chat_keyReminder:
  "\<not> expiredAtGate env (markActivity env s) \<Longrightarrow> \<not> startsWith m ''data:audio'' \<Longrightarrow> m \<noteq> [] \<Longrightarrow>
   keyMissing env \<Longrightarrow> chat env (Some m) s = chatKeyReminder env (markActivity env s)"
  by (simp add: chat_def chatHandler_def)

lemma chat_text:
  "\<not> expiredAtGate env (markActivity env s) \<Longrightarrow> \<not> startsWith m ''data:audio'' \<Longrightarrow> m \<noteq> [] \<Longrightarrow>
   \<not> keyMissing env \<Longrightarrow> chat env (Some m) s = chatText env m (markActivity env s)"
  by (simp add: chat_def chatHandler_def)

lemma gate_open:
  "\<not> sessionExpired s \<Longrightarrow> nowGate env - nowMiddleware env < INACTIVITY_MS \<Longrightarrow>
   \<not> expiredAtGate env (markActivity env s)"
  by (simp add: expiredAtGate_def markActivity_def)

lemma historialOf_markActivity: "historialOf (markActivity env s) = historialOf s"
  by (simp add: historialOf_def markActivity_def)

lemma chat_Reply:
  assumes "chat env um s = (Reply t sent emo msg, s', calls)"
  shows "\<exists>m. um = Some m \<and> chatAudio env m (markActivity env s) = (Reply t sent emo msg, s', calls)"
  using assms
  by (auto simp: chat_def chatHandler_def chatGreeting_def chatKeyReminder_def chatText_def Let_def
           split: if_splits option.splits sum.splits prod.splits)

lemma chatAudio_Reply:
  assumes "chatAudio env m s = (Reply t sent emo msg, s', calls)"
  shows "histFile s' = Content (objectSet (historialOf s) (conversacionKey (nextIndexOf (historialOf s)))
            \<lparr>user_responde = t, sentimiento = sent, mia_emocion = emo, mia_text = msgText msg\<rparr>)"
    and "facialExpression msg = facialExpression (mapEmotionToVisuals (Some emo) (int (nextIndexOf (historialOf s)) - 1))"
    and "animation msg = rotatingTalkingAnimation (int (nextIndexOf (historialOf s)) - 1)"
    and "summaryFile s' = summaryFile s \<or> (\<exists>r. summaryFile s' = Content (Some r))"
proof -
  show "histFile s' = Content (objectSet (historialOf s) (conversacionKey (nextIndexOf (historialOf s)))
            \<lparr>user_responde = t, sentimiento = sent, mia_emocion = emo, mia_text = msgText msg\<rparr>)"
    using assms
    by (cases rule: chatAudio_outcomes [of m env s]) (auto dest: maybeUpdateSummary_frame(1))
  show "facialExpression msg = facialExpression (mapEmotionToVisuals (Some emo) (int (nextIndexOf (historialOf s)) - 1))"
    using assms by (cases rule: chatAudio_outcomes [of m env s]) auto
  show "animation msg = rotatingTalkingAnimation (int (nextIndexOf (historialOf s)) - 1)"
    using assms by (cases rule: chatAudio_outcomes [of m env s]) auto
  show "summaryFile s' = summaryFile s \<or> (\<exists>r. summaryFile s' = Content (Some r))"
    using assms
    by (cases rule: chatAudio_outcomes [of m env s])
       (auto simp: maybeUpdateSummary_def Let_def split: if_splits sum.splits)
qed

section \<open>Visuals of a reply\<close>

lemma rotating_nat: "rotatingTalkingAnimation (int n) = ''Talking_'' @ showNat (n mod 3)"
proof -
  have "n mod 3 = 0 \<or> n mod 3 = 1 \<or> n mod 3 = 2" by arith
  moreover have "jsRem (int n) 3 = int (n mod 3)" by (simp add: jsRem_def zmod_int)
  ultimately show ?thesis
    by (auto simp: rotatingTalkingAnimation_def Let_def showNat.simps)
qed

lemma facial_table:
  "facialExpression (mapEmotionToVisuals lbl idx) =
     (case map_of expressionTable
             (toLowerCase (case lbl of None \<Rightarrow> ''default'' | Some l \<Rightarrow> if l = [] then ''default'' else l)) of
        Some x \<Rightarrow> x | None \<Rightarrow> ''default'')"
  by (simp add: mapEmotionToVisuals_def expressionTable_def Let_def)

lemma demo_first_reply:
  "chat demoEnv (Some demoAudio) emptySession =
     (Reply ''hola'' ''positivo'' ''amor''
        \<lparr>facialExpression = ''smile'', animation = ''Talking_0'', msgText = ''Me alegra.'',
         audio = Some ''UklGRg=='', lipsync = Some ''{}''\<rparr>,
      emptySession\<lparr>lastActivity := 1003,
        histFile := Content [(''conversacion_1'',
          \<lparr>user_responde = ''hola'', sentimiento = ''positivo'', mia_emocion = ''amor'',
           mia_text = ''Me alegra.''\<rparr>)],
        messageMp3 := [(0, ''UklGRg=='')]\<rparr>,
      [Whisper ''AAAA'' ''audio.webm'' ''audio/webm'', Sentiment ''hola'',
       MiaPredict ''hola'' ''positivo'',
       Responses (ReplyPrompt (''(sin resumen a'' @ [CHR 0xFA] @ ''n)'')
          ''(no hay historial reciente)'' ''hola'' ''positivo'' ''amor'' 0),
       TextToSpeech ''audios/message_0.mp3'' ''Me alegra.'',
       LipSync 0 (Some ''UklGRg=='')])"
  by code_simp

lemma synthesizeAll_visuals:
  "synthesizeAll env i ms s = (Inr ms', s', cs) \<Longrightarrow> map visualsOf ms' = map visualsOf ms"
proof (induction ms arbitrary: i s ms' s' cs)
  case Nil
  then show ?case by simp
next
  case (Cons m ms)
  obtain r1 s1 cs1 where s1: "synthesize env i (msgText m) s = (r1, s1, cs1)"
    by (cases "synthesize env i (msgText m) s") auto
  obtain r2 s2 cs2 where s2: "synthesizeAll env (i + 1) ms s1 = (r2, s2, cs2)"
    by (cases "synthesizeAll env (i + 1) ms s1") auto
  from Cons.prems s1 s2 obtain au ls ms2 where
    r: "r1 = Inr (au, ls)" "r2 = Inr ms2" "ms' = m\<lparr>audio := Some au, lipsync := Some ls\<rparr> # ms2"
    by (auto split: sum.splits)
  from Cons.IH [of "i + 1" s1 ms2 s2 cs2] s2 r(2)
  have "map visualsOf ms2 = map visualsOf ms" by simp
  moreover have "visualsOf (m\<lparr>audio := Some au, lipsync := Some ls\<rparr>) = visualsOf m"
    by (simp add: visualsOf_def)
  ultimately show ?case using r(3) by simp
qed

lemma chatAudio_no_Messages: "chatAudio env m s \<noteq> (Messages ms, s', calls)"
  by (cases rule: chatAudio_outcomes [of m env s]) auto

lemma chat_Messages:
  assumes "chat env um s = (Messages ms, s', calls)"
  shows "case um of
           None \<Rightarrow> map visualsOf ms = [(''smile'', ''Talking_1'')]
         | Some m \<Rightarrow>
             if m = [] then map visualsOf ms = [(''smile'', ''Talking_1'')]
             else if keyMissing env then map visualsOf ms = [(''angry'', ''Angry'')]
             else \<exists>completion. chatCompletions env m = Inr completion
                    \<and> map visualsOf ms = map visualsOf completion"
proof -
  let ?s = "markActivity env s"
  have open_gate: "\<not> expiredAtGate env ?s"
    using assms by (auto simp: chat_def chatHandler_def)
  have greeting: "map visualsOf ms = [(''smile'', ''Talking_1'')]"
    if "chatGreeting env ?s = (Messages ms, s', calls)"
    using that by (auto simp: chatGreeting_def Let_def visualsOf_def split: option.splits)
  show ?thesis
  proof (cases um)
    case None
    then show ?thesis using assms open_gate greeting by (simp add: chat_def chatHandler_def)
  next
    case (Some m)
    show ?thesis
    proof (cases "startsWith m ''data:audio''")
      case True
      then show ?thesis using assms Some open_gate chatAudio_no_Messages [of env m ?s ms s' calls]
        by (simp add: chat_def chatHandler_def)
    next
      case audio: False
      show ?thesis
      proof (cases "m = []")
        case True
        then show ?thesis using assms Some open_gate audio greeting
          by (simp add: chat_def chatHandler_def)
      next
        case nonempty: False
        show ?thesis
        proof (cases "keyMissing env")
          case True
          then show ?thesis using assms Some open_gate audio nonempty
            by (auto simp: chat_def chatHandler_def chatKeyReminder_def visualsOf_def)
        next
          case False
          then have ct: "chatText env m ?s = (Messages ms, s', calls)"
            using assms Some open_gate audio nonempty by (simp add: chat_def chatHandler_def)
          then obtain completion where c: "chatCompletions env m = Inr completion"
            by (cases "chatCompletions env m") (auto simp: chatText_def)
          obtain r2 s2 cs2 where s2: "synthesizeAll env 0 completion ?s = (r2, s2, cs2)"
            by (cases "synthesizeAll env 0 completion ?s") auto
          from ct c s2 have "r2 = Inr ms" by (auto simp: chatText_def split: sum.splits)
          with s2 have "map visualsOf ms = map visualsOf completion"
            using synthesizeAll_visuals by blast
          then show ?thesis using Some nonempty False c by simp
        qed
      qed
    qed
  qed
qed

lemma animation_is_Talking: "take 8 (animation (mapEmotionToVisuals lbl idx)) = ''Talking_''"
  by (simp add: mapEmotionToVisuals_def rotatingTalkingAnimation_def Let_def)

text \<open>
  C8, as stated, fails twice. On the first reply of an empty session the next turn index
  is 1, and the animation sent is \<^verbatim>\<open>Talking_0\<close> and not \<^verbatim>\<open>Talking_1\<close>, because the handler
  passes \<^verbatim>\<open>nextIndex - 1\<close> to \<^verbatim>\<open>mapEmotionToVisuals\<close>. And a request answered with the key
  reminder carries the pair \<^verbatim>\<open>angry\<close>, \<^verbatim>\<open>Angry\<close>, an animation that \<^verbatim>\<open>mapEmotionToVisuals\<close>
  gives for no label and no index.
\<close>

theorem first_reply_animation_is_Talking_0:
  "nextIndexOf (historialOf emptySession) = 1
   \<and> replyVisuals (fst (chat demoEnv (Some demoAudio) emptySession)) = Some (''smile'', ''Talking_0'')
   \<and> ''Talking_'' @ showNat (1 mod 3) = ''Talking_1''
   \<and> messagesVisuals (fst (chat noKeyEnv (Some ''hola'') emptySession)) = [(''angry'', ''Angry'')]
   \<and> (\<forall>lbl idx. take 8 (animation (mapEmotionToVisuals lbl idx)) = ''Talking_'')
   \<and> take 8 ''Angry'' = ''Angry''"
proof -
  have "nextIndexOf (historialOf emptySession) = 1
   \<and> replyVisuals (fst (chat demoEnv (Some demoAudio) emptySession)) = Some (''smile'', ''Talking_0'')
   \<and> ''Talking_'' @ showNat (1 mod 3) = ''Talking_1''
   \<and> messagesVisuals (fst (chat noKeyEnv (Some ''hola'') emptySession)) = [(''angry'', ''Angry'')]
   \<and> take 8 ''Angry'' = ''Angry''"
    by code_simp
  then show ?thesis using animation_is_Talking by blast
qed

text \<open>
  C8, amended: the visual pair of a reply of the audio flow (the response with
  \<^verbatim>\<open>ok: true\<close>) is a total function of the reply-emotion label and of the number of turns
  already stored (the next turn index minus one). The facial expression is looked up in
  the fixed table under the lower-case label, a missing or empty label counting as
  \<^verbatim>\<open>default\<close> and any label outside the table giving \<^verbatim>\<open>default\<close>; the animation is
  \<^verbatim>\<open>Talking_\<close> followed by that number modulo 3. The other replies do not go through the
  mapping: the greeting (empty or absent input) carries \<^verbatim>\<open>smile\<close> and \<^verbatim>\<open>Talking_1\<close>, the
  key reminder \<^verbatim>\<open>angry\<close> and \<^verbatim>\<open>Angry\<close>, and each message of a text chat the pair its chat
  completion gave it.
\<close>

theorem visuals_from_label_and_stored_turns:
  "facialExpression (mapEmotionToVisuals lbl idx) =
     (case map_of expressionTable
             (toLowerCase (case lbl of None \<Rightarrow> ''default'' | Some l \<Rightarrow> if l = [] then ''default'' else l)) of
        Some x \<Rightarrow> x | None \<Rightarrow> ''default'')
   \<and> animation (mapEmotionToVisuals lbl (int n)) = ''Talking_'' @ showNat (n mod 3)
   \<and> (chat env um s = (Reply t sent emo msg, s', calls) \<longrightarrow>
        facialExpression msg = facialExpression (mapEmotionToVisuals (Some emo) (int (nextIndexOf (historialOf s) - 1)))
        \<and> animation msg = ''Talking_'' @ showNat ((nextIndexOf (historialOf s) - 1) mod 3))
   \<and> (chat env um s = (Messages ms, s', calls) \<longrightarrow>
        (case um of
           None \<Rightarrow> map visualsOf ms = [(''smile'', ''Talking_1'')]
         | Some m \<Rightarrow>
             if m = [] then map visualsOf ms = [(''smile'', ''Talking_1'')]
             else if keyMissing env then map visualsOf ms = [(''angry'', ''Angry'')]
             else \<exists>completion. chatCompletions env m = Inr completion
                    \<and> map visualsOf ms = map visualsOf completion))"
proof -
  have idx: "int (nextIndexOf (historialOf s)) - 1 = int (nextIndexOf (historialOf s) - 1)"
    by (simp add: nextIndexOf_def)
  have "animation (mapEmotionToVisuals lbl (int n)) = ''Talking_'' @ showNat (n mod 3)"
    using rotating_nat [of n] by (simp add: mapEmotionToVisuals_def Let_def)
  moreover have "chat env um s = (Reply t sent emo msg, s', calls) \<longrightarrow>
        facialExpression msg = facialExpression (mapEmotionToVisuals (Some emo) (int (nextIndexOf (historialOf s) - 1)))
        \<and> animation msg = ''Talking_'' @ showNat ((nextIndexOf (historialOf s) - 1) mod 3)"
  proof
    assume "chat env um s = (Reply t sent emo msg, s', calls)"
    then obtain m where "chatAudio env m (markActivity env s) = (Reply t sent emo msg, s', calls)"
      using chat_Reply by blast
    from chatAudio_Reply(2,3) [OF this]
    show "facialExpression msg = facialExpression (mapEmotionToVisuals (Some emo) (int (nextIndexOf (historialOf s) - 1)))
        \<and> animation msg = ''Talking_'' @ showNat ((nextIndexOf (historialOf s) - 1) mod 3)"
      unfolding historialOf_markActivity idx rotating_nat by simp
  qed
  moreover have "chat env um s = (Messages ms, s', calls) \<longrightarrow>
        (case um of
           None \<Rightarrow> map visualsOf ms = [(''smile'', ''Talking_1'')]
         | Some m \<Rightarrow>
             if m = [] then map visualsOf ms = [(''smile'', ''Talking_1'')]
             else if keyMissing env then map visualsOf ms = [(''angry'', ''Angry'')]
             else \<exists>completion. chatCompletions env m = Inr completion
                    \<and> map visualsOf ms = map visualsOf completion)"
    using chat_Messages by blast
  ultimately show ?thesis using facial_table by blast
qed

text \<open>The first reply of an empty session: label \<^verbatim>\<open>amor\<close>, no turn stored yet. A text
  chat: the one message of the completion keeps its pair.\<close>

theorem visuals_from_label_and_stored_turns_witness:
  "chat demoEnv (Some demoAudio) emptySession =
     (Reply ''hola'' ''positivo'' ''amor''
        \<lparr>facialExpression = ''smile'', animation = ''Talking_0'', msgText = ''Me alegra.'',
         audio = Some ''UklGRg=='', lipsync = Some ''{}''\<rparr>,
      emptySession\<lparr>lastActivity := 1003,
        histFile := Content [(''conversacion_1'',
          \<lparr>user_responde = ''hola'', sentimiento = ''positivo'', mia_emocion = ''amor'',
           mia_text = ''Me alegra.''\<rparr>)],
        messageMp3 := [(0, ''UklGRg=='')]\<rparr>,
      [Whisper ''AAAA'' ''audio.webm'' ''audio/webm'', Sentiment ''hola'',
       MiaPredict ''hola'' ''positivo'',
       Responses (ReplyPrompt (''(sin resumen a'' @ [CHR 0xFA] @ ''n)'')
          ''(no hay historial reciente)'' ''hola'' ''positivo'' ''amor'' 0),
       TextToSpeech ''audios/message_0.mp3'' ''Me alegra.'',
       LipSync 0 (Some ''UklGRg=='')])
   \<and> ''smile'' = facialExpression (mapEmotionToVisuals (Some ''amor'') (int (nextIndexOf (historialOf emptySession) - 1)))
   \<and> ''Talking_0'' = ''Talking_'' @ showNat ((nextIndexOf (historialOf emptySession) - 1) mod 3)
   \<and> facialExpression (mapEmotionToVisuals (Some (''ALEGR'' @ [CHR 0xCD] @ ''A'')) 7) = ''smile''
   \<and> facialExpression (mapEmotionToVisuals None 7) = ''default''
   \<and> animation (mapEmotionToVisuals (Some []) (int 7)) = ''Talking_1''
   \<and> fst (chat chattyEnv (Some ''hola'') emptySession) =
       Messages [\<lparr>facialExpression = ''funnyFace'', animation = ''Laughing'',
           msgText = ''Ja ja.'', audio = Some ''UklGRg=='', lipsync = Some ''{}''\<rparr>]
   \<and> (\<exists>completion. chatCompletions chattyEnv ''hola'' = Inr completion
         \<and> [(''funnyFace'', ''Laughing'')] = map visualsOf completion)"
proof -
  let ?msg = "\<lparr>facialExpression = ''smile'', animation = ''Talking_0'', msgText = ''Me alegra.'',
         audio = Some ''UklGRg=='', lipsync = Some ''{}''\<rparr>"
  let ?reply = "\<lparr>facialExpression = ''funnyFace'', animation = ''Laughing'',
           msgText = ''Ja ja.'', audio = Some ''UklGRg=='', lipsync = Some ''{}''\<rparr>"
  have a: "''smile'' = facialExpression (mapEmotionToVisuals (Some ''amor'') (int (nextIndexOf (historialOf emptySession) - 1)))
      \<and> ''Talking_0'' = ''Talking_'' @ showNat ((nextIndexOf (historialOf emptySession) - 1) mod 3)"
    using visuals_from_label_and_stored_turns [of "Some ''amor''" 0 0 demoEnv "Some demoAudio"
        emptySession "''hola''" "''positivo''" "''amor''" ?msg]
      demo_first_reply
    by simp
  have l1: "(case map_of expressionTable (toLowerCase ''default'') of Some x \<Rightarrow> x | None \<Rightarrow> ''default'')
      = ''default''"
    by code_simp
  have l2: "(case map_of expressionTable (toLowerCase (''ALEGR'' @ [CHR 0xCD] @ ''A'')) of
        Some x \<Rightarrow> x | None \<Rightarrow> ''default'') = ''smile''"
    by code_simp
  have l3: "''Talking_'' @ showNat (7 mod 3) = ''Talking_1''" by code_simp
  have b: "facialExpression (mapEmotionToVisuals (Some (''ALEGR'' @ [CHR 0xCD] @ ''A'')) 7) = ''smile''"
    using visuals_from_label_and_stored_turns [of "Some (''ALEGR'' @ [CHR 0xCD] @ ''A'')" 7 7]
    unfolding option.case by (simp only: l2 append_is_Nil_conv list.distinct if_False simp_thms)
  have c: "facialExpression (mapEmotionToVisuals None 7) = ''default''"
    using visuals_from_label_and_stored_turns [of None 7 7]
    unfolding option.case by (simp only: l1)
  have d: "animation (mapEmotionToVisuals (Some []) (int 7)) = ''Talking_1''"
    using visuals_from_label_and_stored_turns [of "Some []" 7 7] by (simp only: l3)
  have t: "chat chattyEnv (Some ''hola'') emptySession =
      (Messages [?reply],
       emptySession\<lparr>lastActivity := 1003, messageMp3 := [(0, ''UklGRg=='')]\<rparr>,
       [ChatCompletions ''hola'', TextToSpeech ''audios/message_0.mp3'' ''Ja ja.'',
        LipSync 0 (Some ''UklGRg=='')])"
    by code_simp
  have k: "\<not> keyMissing chattyEnv" by code_simp
  have v: "map visualsOf [?reply] = [(''funnyFace'', ''Laughing'')]" by (simp add: visualsOf_def)
  have e: "\<exists>completion. chatCompletions chattyEnv ''hola'' = Inr completion
         \<and> [(''funnyFace'', ''Laughing'')] = map visualsOf completion"
    using visuals_from_label_and_stored_turns [where env = chattyEnv and um = "Some ''hola''"
        and s = emptySession and ms = "[?reply]"] t k v
    by simp
  show ?thesis using a b c d e t demo_first_reply by simp
qed

section \<open>Greeting, credentials and expiry\<close>

text \<open>
  C10, as stated, fails for a session whose flag is set: the request with no input gets
  the session-expired result and the history is wiped.
\<close>

theorem greeting_request_on_expired_session_wipes:
  "fst (chat demoEnv None flaggedSession) = SessionExpired
   \<and> histFile (fst (snd (chat demoEnv None flaggedSession))) = Content []
   \<and> histFile flaggedSession \<noteq> Content []"
  by code_simp

text \<open>
  C10, amended: for every session that is not expired when the request is handled (the
  flag is clear and less than five minutes lie between the middleware and the expiry
  test), a request with an empty or absent input calls no collaborator and leaves the
  whole state as it was except for \<^verbatim>\<open>lastActivity\<close>: the history, its count and the
  summary are unchanged, so no turn index is used. It answers with the canned greeting
  whenever the intro assets can be read.
\<close>

theorem greeting_leaves_documents:
  assumes "\<not> sessionExpired s" and "nowGate env - nowMiddleware env < INACTIVITY_MS"
    and "um = None \<or> um = Some []"
  shows "snd (chat env um s) = (s\<lparr>lastActivity := nowEnd env\<rparr>, [])
       \<and> nextIndexOf (historialOf (fst (snd (chat env um s)))) = nextIndexOf (historialOf s)
       \<and> (\<forall>wav json. introAssets s = Some (wav, json) \<longrightarrow>
             fst (chat env um s) = Messages [greetingMessage wav json])"
proof -
  have "chat env um s = chatGreeting env (markActivity env s)"
    using chat_greeting gate_open assms by blast
  then show ?thesis using assms(1)
    by (auto simp: chatGreeting_def Let_def greetingMessage_def markActivity_def historialOf_def
          split: option.splits)
qed

text \<open>A session that holds one turn, and an absent input.\<close>

theorem greeting_leaves_documents_witness:
  "\<not> sessionExpired staleSession \<and> nowGate demoEnv - nowMiddleware demoEnv < INACTIVITY_MS
   \<and> introAssets staleSession = Some (''UklGRg=='', ''{}'')
   \<and> chat demoEnv None staleSession =
       (Messages [greetingMessage ''UklGRg=='' ''{}''], staleSession\<lparr>lastActivity := 1003\<rparr>, [])"
proof -
  have a: "\<not> sessionExpired staleSession" by (simp add: staleSession_def)
  have b: "nowGate demoEnv - nowMiddleware demoEnv < INACTIVITY_MS"
    by (simp add: demoEnv_def INACTIVITY_MS_def)
  have c: "introAssets staleSession = Some (''UklGRg=='', ''{}'')" by (simp add: staleSession_def)
  have e: "nowEnd demoEnv = 1003" by (simp add: demoEnv_def)
  from greeting_leaves_documents [OF a b, of None] c
  have "snd (chat demoEnv None staleSession) = (staleSession\<lparr>lastActivity := 1003\<rparr>, [])
      \<and> fst (chat demoEnv None staleSession) = Messages [greetingMessage ''UklGRg=='' ''{}'']"
    unfolding e by blast
  then have "chat demoEnv None staleSession =
       (Messages [greetingMessage ''UklGRg=='' ''{}''], staleSession\<lparr>lastActivity := 1003\<rparr>, [])"
    by (metis prod.collapse)
  then show ?thesis using a b c by blast
qed

lemma gate_closed:
  "sessionExpired s \<or> INACTIVITY_MS \<le> nowGate env - nowMiddleware env \<Longrightarrow>
   expiredAtGate env (markActivity env s)"
  by (auto simp: expiredAtGate_def markActivity_def)

text \<open>With both credentials missing an audio request is not stopped by any key test: the
  transcription call is made and its failure is answered with status 500.\<close>

lemma missing_key_audio_fails:
  "keyMissing noKeyEnv
   \<and> chat noKeyEnv (Some demoAudio) emptySession =
       (ServerError ''401 Incorrect API key provided: -'', emptySession\<lparr>lastActivity := 1000\<rparr>,
        [Whisper ''AAAA'' ''audio.webm'' ''audio/webm''])"
  by code_simp

text \<open>
  C9, as stated, fails: with both credentials missing, a request with no input gets the
  usual greeting, which explains nothing about credentials, and a request handled while
  the session is expired gets the session-expired result, whatever its input. The test of
  the credentials stands after the expiry test and after the branch of the empty input.
\<close>

theorem missing_key_greeting_and_expired:
  "keyMissing noKeyEnv
   \<and> fst (chat noKeyEnv None emptySession) = Messages [greetingMessage ''UklGRg=='' ''{}'']
   \<and> msgText (greetingMessage ''UklGRg=='' ''{}'') = ''Hey dear... How was your day?''
   \<and> fst (chat noKeyEnv (Some ''hola'') flaggedSession) = SessionExpired"
  by code_simp

text \<open>
  C9, amended: while the ElevenLabs key is missing or the OpenAI key is the placeholder,
  a request handled while the session is not expired whose input is a non-empty text that
  is not an audio data URL is answered with the key reminder message (sent with status
  200), no collaborator is called, and only \<^verbatim>\<open>lastActivity\<close> changes; a request with an
  empty or absent input, handled while the session is not expired and the intro assets can
  be read, is answered with the greeting, again without any call; and a request handled
  while the session is expired is answered with the session-expired result without any
  call.
\<close>

theorem missing_key_text_reminder:
  assumes "elevenLabsApiKey env = None \<or> elevenLabsApiKey env = Some [] \<or> openaiApiKey env = ''-''"
  shows "(\<not> sessionExpired s \<and> nowGate env - nowMiddleware env < INACTIVITY_MS
            \<and> m \<noteq> [] \<and> \<not> startsWith m ''data:audio'' \<longrightarrow>
          chat env (Some m) s = (Messages [keyReminderMessage], s\<lparr>lastActivity := nowEnd env\<rparr>, []))
       \<and> (\<not> sessionExpired s \<and> nowGate env - nowMiddleware env < INACTIVITY_MS
            \<and> (um = None \<or> um = Some []) \<and> introAssets s = Some (wav, json) \<longrightarrow>
          chat env um s = (Messages [greetingMessage wav json], s\<lparr>lastActivity := nowEnd env\<rparr>, []))
       \<and> (sessionExpired s \<or> INACTIVITY_MS \<le> nowGate env - nowMiddleware env \<longrightarrow>
          fst (chat env um s) = SessionExpired \<and> snd (snd (chat env um s)) = [])"
proof (intro conjI impI)
  assume a: "\<not> sessionExpired s \<and> nowGate env - nowMiddleware env < INACTIVITY_MS
            \<and> m \<noteq> [] \<and> \<not> startsWith m ''data:audio''"
  have "keyMissing env" using assms by (simp add: keyMissing_def)
  then have "chat env (Some m) s = chatKeyReminder env (markActivity env s)"
    using chat_keyReminder gate_open a by blast
  then show "chat env (Some m) s = (Messages [keyReminderMessage], s\<lparr>lastActivity := nowEnd env\<rparr>, [])"
    using a by (simp add: chatKeyReminder_def keyReminderMessage_def markActivity_def)
next
  assume a: "\<not> sessionExpired s \<and> nowGate env - nowMiddleware env < INACTIVITY_MS
            \<and> (um = None \<or> um = Some []) \<and> introAssets s = Some (wav, json)"
  have "chat env um s = chatGreeting env (markActivity env s)"
    using chat_greeting gate_open a by blast
  then show "chat env um s = (Messages [greetingMessage wav json], s\<lparr>lastActivity := nowEnd env\<rparr>, [])"
    using a by (simp add: chatGreeting_def Let_def greetingMessage_def markActivity_def)
next
  assume "sessionExpired s \<or> INACTIVITY_MS \<le> nowGate env - nowMiddleware env"
  then have "expiredAtGate env (markActivity env s)" by (rule gate_closed)
  then show "fst (chat env um s) = SessionExpired" by (simp add: chat_expired)
next
  assume "sessionExpired s \<or> INACTIVITY_MS \<le> nowGate env - nowMiddleware env"
  then have "expiredAtGate env (markActivity env s)" by (rule gate_closed)
  then show "snd (snd (chat env um s)) = []" by (simp add: chat_expired)
qed

text \<open>No credential is set: the text \<^verbatim>\<open>hola\<close> and an absent input on a fresh session, and
  the text \<^verbatim>\<open>hola\<close> on a session whose flag is set.\<close>

theorem missing_key_text_reminder_witness:
  "(elevenLabsApiKey noKeyEnv = None \<or> elevenLabsApiKey noKeyEnv = Some [] \<or> openaiApiKey noKeyEnv = ''-'')
   \<and> \<not> sessionExpired emptySession \<and> nowGate noKeyEnv - nowMiddleware noKeyEnv < INACTIVITY_MS
   \<and> ''hola'' \<noteq> [] \<and> \<not> startsWith ''hola'' ''data:audio''
   \<and> chat noKeyEnv (Some ''hola'') emptySession =
       (Messages [keyReminderMessage], emptySession\<lparr>lastActivity := 1003\<rparr>, [])
   \<and> introAssets emptySession = Some (''UklGRg=='', ''{}'')
   \<and> chat noKeyEnv None emptySession =
       (Messages [greetingMessage ''UklGRg=='' ''{}''], emptySession\<lparr>lastActivity := 1003\<rparr>, [])
   \<and> sessionExpired flaggedSession
   \<and> fst (chat noKeyEnv (Some ''hola'') flaggedSession) = SessionExpired
   \<and> snd (snd (chat noKeyEnv (Some ''hola'') flaggedSession)) = []"
proof -
  have k: "elevenLabsApiKey noKeyEnv = None \<or> elevenLabsApiKey noKeyEnv = Some []
      \<or> openaiApiKey noKeyEnv = ''-''"
    by (simp add: noKeyEnv_def)
  have f: "\<not> sessionExpired emptySession" "nowGate noKeyEnv - nowMiddleware noKeyEnv < INACTIVITY_MS"
    "''hola'' \<noteq> []" "\<not> startsWith ''hola'' ''data:audio''"
    "introAssets emptySession = Some (''UklGRg=='', ''{}'')" "sessionExpired flaggedSession"
    "nowEnd noKeyEnv = 1003"
    by (simp_all add: emptySession_def flaggedSession_def noKeyEnv_def demoEnv_def INACTIVITY_MS_def
          startsWith_def)
  have a: "chat noKeyEnv (Some ''hola'') emptySession =
       (Messages [keyReminderMessage], emptySession\<lparr>lastActivity := 1003\<rparr>, [])"
    using missing_key_text_reminder [OF k, of emptySession "''hola''"] f by simp
  have b: "chat noKeyEnv None emptySession =
       (Messages [greetingMessage ''UklGRg=='' ''{}''], emptySession\<lparr>lastActivity := 1003\<rparr>, [])"
    using missing_key_text_reminder [OF k, of emptySession _ None "''UklGRg==''" "''{}''"] f by simp
  have c: "fst (chat noKeyEnv (Some ''hola'') flaggedSession) = SessionExpired
      \<and> snd (snd (chat noKeyEnv (Some ''hola'') flaggedSession)) = []"
    using missing_key_text_reminder [OF k, of flaggedSession _ "Some ''hola''"] f by simp
  show ?thesis using k f a b c by simp
qed

lemma watchdog_effect:
  assumes "\<not> sessionExpired s" and "INACTIVITY_MS \<le> now - lastActivity s"
  shows "watchdog now nowReset s =
           \<lparr>lastActivity = nowReset, sessionExpired = False, histFile = Content [],
            summaryFile = Content None, introAssets = None, messageMp3 = []\<rparr>"
  using assms
  by (simp add: watchdog_def Let_def resetSession_def clearHistorial_def clearAudios_def)

lemma watchdog_then_gate_open:
  assumes "\<not> sessionExpired s" and "INACTIVITY_MS \<le> now - lastActivity s"
    and "nowGate env - nowMiddleware env < INACTIVITY_MS"
  shows "\<not> expiredAtGate env (markActivity env (watchdog now nowReset s))"
  using assms by (simp add: watchdog_effect gate_open)

text \<open>
  C2 at a session idle for more than five minutes: the watchdog callback clears both
  documents, but when it ends the flag is clear again and \<^verbatim>\<open>lastActivity\<close> is fresh, so
  the audio request that follows runs the whole pipeline with its six calls.
\<close>

theorem watchdog_leaves_session_active:
  "lastActivity staleSession + INACTIVITY_MS < 300001
   \<and> watchdog 300001 300002 staleSession =
       \<lparr>lastActivity = 300002, sessionExpired = False, histFile = Content [],
        summaryFile = Content None, introAssets = None, messageMp3 = []\<rparr>
   \<and> fst (chat laterEnv (Some demoAudio) (watchdog 300001 300002 staleSession)) =
       Reply ''hola'' ''positivo'' ''amor''
        \<lparr>facialExpression = ''smile'', animation = ''Talking_0'', msgText = ''Me alegra.'',
         audio = Some ''UklGRg=='', lipsync = Some ''{}''\<rparr>
   \<and> length (snd (snd (chat laterEnv (Some demoAudio) (watchdog 300001 300002 staleSession)))) = 6"
  by code_simp

section \<open>Turn indices\<close>





lemma synthesize_frame:
  assumes "synthesize env i t s = (r, s1, cs)"
  shows "histFile s1 = histFile s" and "summaryFile s1 = summaryFile s"
  using assms by (auto simp: synthesize_cases Let_def split: sum.splits)

lemma synthesizeAll_frame:
  "synthesizeAll env i ms s = (r, s', cs) \<Longrightarrow>
   histFile s' = histFile s \<and> summaryFile s' = summaryFile s"
proof (induction ms arbitrary: i s r s' cs)
  case Nil
  then show ?case by simp
next
  case (Cons m ms)
  obtain r1 s1 cs1 where s1: "synthesize env i (msgText m) s = (r1, s1, cs1)"
    by (cases "synthesize env i (msgText m) s") auto
  obtain r2 s2 cs2 where s2: "synthesizeAll env (i + 1) ms s1 = (r2, s2, cs2)"
    by (cases "synthesizeAll env (i + 1) ms s1") auto
  have "s' = s1 \<or> s' = s2"
    using Cons.prems s1 s2 by (auto split: sum.splits)
  then show ?case using synthesize_frame [OF s1] Cons.IH [OF s2] by auto
qed





lemma watchdog_keeps_dense:
  assumes "objectKeys (historialOf s) = map conversacionKey [1..<Suc n]"
  shows "\<exists>n'. objectKeys (historialOf (watchdog now nowReset s)) = map conversacionKey [1..<Suc n']"
proof (cases "\<not> sessionExpired s \<and> INACTIVITY_MS \<le> now - lastActivity s")
  case True
  then have "objectKeys (historialOf (watchdog now nowReset s)) = map conversacionKey [1..<Suc 0]"
    by (simp add: watchdog_effect historialOf_def readJsonSafe_def objectKeys_def)
  then show ?thesis by blast
next
  case False
  then have "watchdog now nowReset s = s" by (auto simp: watchdog_def Let_def)
  then show ?thesis using assms by auto
qed









section \<open>Failing calls\<close>

lemma essentialError_whisper_ok:
  "transcribeBufferWithWhisper env buffer filename mime = Inr t \<Longrightarrow>
   essentialError env (Whisper buffer filename mime) = None"
  by (auto simp: transcribeBufferWithWhisper_def split: sum.splits)

lemma essentialError_replyPrompt:
  "essentialError env (Responses (replyPrompt s t sent emo)) =
     (case responsesCreate env (replyPrompt s t sent emo) of Inl e \<Rightarrow> Some e | Inr x \<Rightarrow> None)"
  by (simp add: replyPrompt_def split: prod.splits)

lemma summaryError_replyPrompt: "summaryError env (Responses (replyPrompt s t sent emo)) = None"
  by (simp add: replyPrompt_def split: prod.splits)

lemma maybeUpdateSummary_calls:
  "maybeUpdateSummary env s = (r, cs) \<Longrightarrow> c \<in> set cs \<Longrightarrow> essentialError env c = None"
  by (auto simp: maybeUpdateSummary_def Let_def split: if_splits sum.splits)

lemma maybeUpdateSummary_error:
  "maybeUpdateSummary env s = (Inl e, cs) \<Longrightarrow> \<exists>c \<in> set cs. summaryError env c = Some e"
  by (auto simp: maybeUpdateSummary_def Let_def split: if_splits sum.splits)

lemma maybeUpdateSummary_summaryError:
  "maybeUpdateSummary env s = (r, cs) \<Longrightarrow> c \<in> set cs \<Longrightarrow> summaryError env c = Some e \<Longrightarrow> r = Inl e"
  by (auto simp: maybeUpdateSummary_def Let_def split: if_splits sum.splits)

lemma maybeUpdateSummary_no_Sentiment:
  "maybeUpdateSummary env s = (r, cs) \<Longrightarrow> Sentiment t \<notin> set cs"
  by (auto simp: maybeUpdateSummary_def Let_def split: if_splits sum.splits)

lemma lipSyncMessage_no_error:
  "lipSyncMessage env idx s = Inr ls \<Longrightarrow>
   essentialError env (LipSync idx (map_of (messageMp3 s) idx)) = None"
  by (auto simp: lipSyncMessage_def split: option.splits sum.splits)

lemma synthesize_essential:
  assumes "synthesize env i t s = (r, s1, cs)" and "c \<in> set cs" and "essentialError env c = Some e"
    and "\<And>f u. c \<noteq> TextToSpeech f u"
  shows "r = Inl e"
proof -
  let ?s0 = "voiceTextToSpeech env i t s"
  have "c = LipSync i (map_of (messageMp3 ?s0) i)"
    using assms(1,2,4) by (auto simp: synthesize_cases Let_def split: sum.splits)
  then have "lipSyncMessage env i ?s0 = Inl e"
    using assms(3) by (simp only: lipSyncMessage_essential)
  then show ?thesis using assms(1) by (simp add: synthesize_cases Let_def)
qed

lemma synthesize_ok_calls:
  assumes "synthesize env i t s = (Inr x, s1, cs)" and "c \<in> set cs"
    and "\<And>f u. c \<noteq> TextToSpeech f u"
  shows "essentialError env c = None"
proof -
  let ?s0 = "voiceTextToSpeech env i t s"
  obtain ls where ls: "lipSyncMessage env i ?s0 = Inr ls"
    using assms(1) by (cases "lipSyncMessage env i ?s0") (auto simp: synthesize_cases Let_def)
  have "c = LipSync i (map_of (messageMp3 ?s0) i)"
    using assms by (auto simp: synthesize_cases Let_def split: sum.splits)
  then show ?thesis using lipSyncMessage_no_error [OF ls] by simp
qed

lemma synthesizeAll_essential:
  assumes "synthesizeAll env i ms s = (r, s', cs)" and "c \<in> set cs"
    and "essentialError env c = Some e" and "\<And>f u. c \<noteq> TextToSpeech f u"
  shows "r = Inl e"
  using assms(1,2)
proof (induction ms arbitrary: i s r s' cs)
  case Nil
  then show ?case by simp
next
  case (Cons m ms)
  obtain r1 s1 cs1 where s1: "synthesize env i (msgText m) s = (r1, s1, cs1)"
    by (cases "synthesize env i (msgText m) s") auto
  show ?case
  proof (cases r1)
    case (Inl e1)
    with Cons.prems s1 have "r = Inl e1" "cs = cs1" by simp_all
    with Cons.prems synthesize_essential [OF s1 _ assms(3,4)] Inl show ?thesis by auto
  next
    case (Inr x)
    obtain au ls where x: "x = (au, ls)" by (cases x) auto
    obtain r2 s2 cs2 where s2: "synthesizeAll env (i + 1) ms s1 = (r2, s2, cs2)"
      by (cases "synthesizeAll env (i + 1) ms s1") auto
    have cs: "cs = cs1 @ cs2" using Cons.prems(1) s1 s2 Inr x by (auto split: sum.splits)
    have "c \<notin> set cs1"
      using synthesize_ok_calls [of env i "msgText m" s x s1 cs1 c] s1 Inr assms(3,4) by auto
    then have "c \<in> set cs2" using Cons.prems(2) cs by simp
    then have "r2 = Inl e" using Cons.IH [OF s2] by simp
    then show ?thesis using Cons.prems(1) s1 s2 Inr x by simp
  qed
qed

lemma synthesizeAll_calls:
  "synthesizeAll env i ms s = (r, s', cs) \<Longrightarrow> c \<in> set cs \<Longrightarrow>
   (\<exists>f t. c = TextToSpeech f t) \<or> (\<exists>j d. c = LipSync j d)"
proof (induction ms arbitrary: i s r s' cs)
  case Nil
  then show ?case by simp
next
  case (Cons m ms)
  obtain r1 s1 cs1 where s1: "synthesize env i (msgText m) s = (r1, s1, cs1)"
    by (cases "synthesize env i (msgText m) s") auto
  have c1: "c \<in> set cs1 \<Longrightarrow> (\<exists>f t. c = TextToSpeech f t) \<or> (\<exists>j d. c = LipSync j d)"
    using s1 by (auto simp: synthesize_cases Let_def split: sum.splits)
  obtain r2 s2 cs2 where s2: "synthesizeAll env (i + 1) ms s1 = (r2, s2, cs2)"
    by (cases "synthesizeAll env (i + 1) ms s1") auto
  have c2: "c \<in> set cs2 \<Longrightarrow> (\<exists>f t. c = TextToSpeech f t) \<or> (\<exists>j d. c = LipSync j d)"
    using Cons.IH [OF s2] by simp
  have "c \<in> set cs1 \<or> c \<in> set cs2"
    using Cons.prems s1 s2 by (auto split: sum.splits prod.splits)
  then show ?case using c1 c2 by blast
qed

lemma chatText_essential:
  assumes "chatText env m s = (r, s', calls)" and "c \<in> set calls" and "essentialError env c = Some e"
    and "\<And>f u. c \<noteq> TextToSpeech f u"
  shows "r = ServerError e \<and> histFile s' = histFile s \<and> summaryFile s' = summaryFile s"
proof (cases "chatCompletions env m")
  case (Inl e1)
  then show ?thesis using assms by (auto simp: chatText_def)
next
  case (Inr messages)
  obtain r2 s2 cs2 where s2: "synthesizeAll env 0 messages s = (r2, s2, cs2)"
    by (cases "synthesizeAll env 0 messages s") auto
  have "calls = ChatCompletions m # cs2"
    using assms(1) Inr s2 by (auto simp: chatText_def split: sum.splits)
  then have "c \<in> set cs2" using assms(2,3) by auto
  then have "r2 = Inl e" using synthesizeAll_essential [OF s2 _ assms(3,4)] by simp
  then show ?thesis using assms(1) Inr s2 synthesizeAll_frame [OF s2] by (auto simp: chatText_def)
qed

lemma chatAudio_essential:
  assumes "chatAudio env m s = (r, s', calls)" and "c \<in> set calls" and "essentialError env c = Some e"
    and "\<And>f u. c \<noteq> TextToSpeech f u"
  shows "r = ServerError e \<and> histFile s' = histFile s \<and> summaryFile s' = summaryFile s"
proof (cases rule: chatAudio_outcomes [of m env s])
  case (parse e1)
  then show ?thesis using assms by simp
next
  case (whisper buffer mime ext e1)
  then show ?thesis using assms by auto
next
  case (generate buffer mime ext t sent emo e1)
  then show ?thesis using assms
    by (auto simp del: essentialError.simps(1,2) simp: essentialError_whisper_ok essentialError_replyPrompt)
next
  case (lipsync buffer mime ext t sent emo out s0 e1)
  have "essentialError env (LipSync 0 (map_of (messageMp3 s0) 0)) = Some e1"
    using lipsync(6) by (simp only: lipSyncMessage_essential)
  then show ?thesis using lipsync assms
    by (auto simp del: essentialError.simps(1,2,4) simp: essentialError_whisper_ok essentialError_replyPrompt)
next
  case (summary buffer mime ext t sent emo out s0 au ls s1 e1 calls4)
  have "essentialError env (LipSync 0 (Some au)) = None" using summary(7) by simp
  then show ?thesis using summary assms maybeUpdateSummary_calls [of env s1 "Inl e1" calls4 c]
    by (auto simp del: essentialError.simps(1,2,4) simp: essentialError_whisper_ok essentialError_replyPrompt)
next
  case (reply buffer mime ext t sent emo out s0 au ls s1 s2 calls4)
  have "essentialError env (LipSync 0 (Some au)) = None" using reply(7) by simp
  then show ?thesis using reply assms maybeUpdateSummary_calls [of env s1 "Inr s2" calls4 c]
    by (auto simp del: essentialError.simps(1,2,4) simp: essentialError_whisper_ok essentialError_replyPrompt)
qed

lemma chat_audio_only:
  assumes "chat env um s = (r, s', calls)" and "c \<in> set calls"
    and "\<And>f t. c \<noteq> TextToSpeech f t" and "\<And>j d. c \<noteq> LipSync j d" and "\<And>m. c \<noteq> ChatCompletions m"
  shows "\<exists>m. chatAudio env m (markActivity env s) = (r, s', calls)"
proof -
  have ne: "calls \<noteq> []" using assms(2) by auto
  have gate: "\<not> expiredAtGate env (markActivity env s)"
    using assms(1) ne chat_expired [of env s um] by auto
  show ?thesis
  proof (cases um)
    case None
    then show ?thesis using assms(1) ne chat_greeting [OF gate, of um]
      by (auto simp: chatGreeting_def Let_def split: option.splits)
  next
    case (Some m)
    show ?thesis
    proof (cases "startsWith m ''data:audio''")
      case True
      then show ?thesis using chat_audio [OF gate True] assms Some by auto
    next
      case notAudio: False
      show ?thesis
      proof (cases "m = []")
        case True
        then show ?thesis using assms(1) ne chat_greeting [OF gate, of um] Some
          by (auto simp: chatGreeting_def Let_def split: option.splits)
      next
        case nonEmpty: False
        show ?thesis
        proof (cases "keyMissing env")
          case True
          then show ?thesis
            using assms(1) ne chat_keyReminder [OF gate notAudio nonEmpty True] Some
            by (auto simp: chatKeyReminder_def)
        next
          case False
          have ct: "chatText env m (markActivity env s) = (r, s', calls)"
            using chat_text [OF gate notAudio nonEmpty False] assms(1) Some by simp
          have "c \<notin> set calls"
            using ct synthesizeAll_calls [of env 0 _ _ _ _ _ c] assms(3,4,5)
            by (auto simp: chatText_def split: sum.splits prod.splits)
          then show ?thesis using assms(2) by simp
        qed
      qed
    qed
  qed
qed

text \<open>
  A failing call of transcription, of reply generation or of lip sync (the last also when
  the audio file it needs is missing) ends the request: the response is the single error
  result carrying that error, and both documents are as before, so no turn, whole or
  partial, was written.
\<close>

lemma essential_failure_aborts:
  assumes "chat env um s = (r, s', calls)" and "c \<in> set calls" and "essentialError env c = Some e"
    and "\<And>f u. c \<noteq> TextToSpeech f u"
  shows "r = ServerError e \<and> histFile s' = histFile s \<and> summaryFile s' = summaryFile s"
proof -
  have ne: "calls \<noteq> []" using assms(2) by auto
  have gate: "\<not> expiredAtGate env (markActivity env s)"
    using assms(1) ne chat_expired [of env s um] by auto
  have "r = ServerError e \<and> histFile s' = histFile (markActivity env s)
      \<and> summaryFile s' = summaryFile (markActivity env s)"
  proof (cases um)
    case None
    then show ?thesis using assms(1) ne chat_greeting [OF gate, of um]
      by (auto simp: chatGreeting_def Let_def split: option.splits)
  next
    case (Some m)
    show ?thesis
    proof (cases "startsWith m ''data:audio''")
      case True
      then show ?thesis
        using chat_audio [OF gate True]
          chatAudio_essential [of env m "markActivity env s" r s' calls c e] assms Some
        by auto
    next
      case notAudio: False
      show ?thesis
      proof (cases "m = []")
        case True
        then show ?thesis using assms(1) ne chat_greeting [OF gate, of um] Some
          by (auto simp: chatGreeting_def Let_def split: option.splits)
      next
        case nonEmpty: False
        show ?thesis
        proof (cases "keyMissing env")
          case True
          then show ?thesis
            using assms(1) ne chat_keyReminder [OF gate notAudio nonEmpty True] Some
            by (auto simp: chatKeyReminder_def)
        next
          case False
          then show ?thesis
            using chat_text [OF gate notAudio nonEmpty False]
              chatText_essential [of env m "markActivity env s" r s' calls c e] assms Some
            by auto
        qed
      qed
    qed
  qed
  then show ?thesis by (simp add: markActivity_frame)
qed

lemma demo_generation_fails:
  "chat failingGenerationEnv (Some demoAudio) staleSession =
     (ServerError ''429 rate limit'', staleSession\<lparr>lastActivity := 1000\<rparr>,
      [Whisper ''AAAA'' ''audio.webm'' ''audio/webm'', Sentiment ''hola'',
       MiaPredict ''hola'' ''positivo'',
       Responses (ReplyPrompt (''(sin resumen a'' @ [CHR 0xFA] @ ''n)'')
          (''[conversacion_1]'' @ [CHR 0x0A] @ ''Usuario: hola'' @ [CHR 0x0A] @ ''MIA: Me alegra.'')
          ''hola'' ''positivo'' ''amor'' 1)])"
  by code_simp

text \<open>When the speech call fails and no audio file of an earlier reply is on disk, the lip
  sync fails on the missing file and the request ends with the error of \<^verbatim>\<open>ffmpeg\<close>.\<close>

lemma speech_failure_without_file:
  "chat failingSpeechEnv (Some demoAudio) emptySession =
     (ServerError ''Command failed: ffmpeg -y -i audios/message_0.mp3 audios/message_0.wav'',
      emptySession\<lparr>lastActivity := 1000\<rparr>,
      [Whisper ''AAAA'' ''audio.webm'' ''audio/webm'', Sentiment ''hola'',
       MiaPredict ''hola'' ''positivo'',
       Responses (ReplyPrompt (''(sin resumen a'' @ [CHR 0xFA] @ ''n)'')
          ''(no hay historial reciente)'' ''hola'' ''positivo'' ''amor'' 0),
       TextToSpeech ''audios/message_0.mp3'' ''Me alegra.'', LipSync 0 None])"
  by code_simp

text \<open>
  C4 at a session that holds one turn and, on disk, the audio of its reply: the speech
  call of an audio request is answered with an error, which \<^verbatim>\<open>voice.textToSpeech\<close> logs
  and does not throw. The handler goes on: the lip sync runs on the file of the earlier
  reply, the response is the reply with \<^verbatim>\<open>ok: true\<close> carrying that earlier audio, and the
  turn \<^verbatim>\<open>conversacion_2\<close> is written.
\<close>

theorem speech_failure_is_swallowed:
  "essentialError failingSpeechEnv (TextToSpeech ''audios/message_0.mp3'' ''Me alegra.'')
     = Some ''401 quota_exceeded''
   \<and> messageMp3 staleSession = [(0, ''SUQzBAAAAAAA'')]
   \<and> chat failingSpeechEnv (Some demoAudio) staleSession =
       (Reply ''hola'' ''positivo'' ''amor''
          \<lparr>facialExpression = ''smile'', animation = ''Talking_1'', msgText = ''Me alegra.'',
           audio = Some ''SUQzBAAAAAAA'', lipsync = Some ''{}''\<rparr>,
        staleSession\<lparr>lastActivity := 1003,
          histFile := Content
            [(''conversacion_1'',
              \<lparr>user_responde = ''hola'', sentimiento = ''positivo'', mia_emocion = ''amor'',
               mia_text = ''Me alegra.''\<rparr>),
             (''conversacion_2'',
              \<lparr>user_responde = ''hola'', sentimiento = ''positivo'', mia_emocion = ''amor'',
               mia_text = ''Me alegra.''\<rparr>)]\<rparr>,
        [Whisper ''AAAA'' ''audio.webm'' ''audio/webm'', Sentiment ''hola'',
         MiaPredict ''hola'' ''positivo'',
         Responses (ReplyPrompt (''(sin resumen a'' @ [CHR 0xFA] @ ''n)'')
            (''[conversacion_1]'' @ [CHR 0x0A] @ ''Usuario: hola'' @ [CHR 0x0A] @ ''MIA: Me alegra.'')
            ''hola'' ''positivo'' ''amor'' 1),
         TextToSpeech ''audios/message_0.mp3'' ''Me alegra.'',
         LipSync 0 (Some ''SUQzBAAAAAAA'')])"
  by code_simp

section \<open>Optional stages\<close>

lemma localAnalytics_labels:
  assumes "localAnalytics env t = (sent, emo)"
  shows "sentimentService env t = Inl e \<longrightarrow> sent = ''neutral''"
    and "miaPredictService env t sent = Inl e \<longrightarrow> emo = ''default''"
  using assms
  by (auto simp: localAnalytics_def Let_def callLocalSentiment_def callLocalMiaPredict_def
           split: sum.splits)

lemma replyPrompt_shape:
  "\<exists>a b n. replyPrompt s t sent emo = ReplyPrompt a b t sent emo n"
  by (simp add: replyPrompt_def split: prod.splits)

lemma chatAudio_optional:
  assumes "chatAudio env m s = (r, s', calls)" and "Sentiment t \<in> set calls"
  shows "\<exists>sent emo a b n.
           (\<forall>e. sentimentService env t = Inl e \<longrightarrow> sent = ''neutral'')
         \<and> (\<forall>e. miaPredictService env t sent = Inl e \<longrightarrow> emo = ''default'')
         \<and> MiaPredict t sent \<in> set calls
         \<and> Responses (ReplyPrompt a b t sent emo n) \<in> set calls
         \<and> (\<forall>t' sent' emo' msg. r = Reply t' sent' emo' msg \<longrightarrow> t' = t \<and> sent' = sent \<and> emo' = emo)
         \<and> (\<forall>e. r = ServerError e \<longrightarrow>
               (\<exists>c \<in> set calls. essentialError env c = Some e \<or> summaryError env c = Some e))"
proof (cases rule: chatAudio_outcomes [of m env s])
  case (parse e1)
  then show ?thesis using assms by simp
next
  case (whisper buffer mime ext e1)
  then show ?thesis using assms by auto
next
  case (generate buffer mime ext t0 sent emo e1)
  then have t: "t0 = t" using assms by auto
  obtain a b n where rp: "replyPrompt s t sent emo = ReplyPrompt a b t sent emo n"
    using replyPrompt_shape by blast
  have "essentialError env (Responses (replyPrompt s t sent emo)) = Some e1"
    using generate(4) t by (simp add: essentialError_replyPrompt)
  then show ?thesis
    using generate assms(1) t rp localAnalytics_labels [of env t sent emo]
    by (intro exI [of _ sent] exI [of _ emo] exI [of _ a] exI [of _ b] exI [of _ n])
       (auto simp del: essentialError.simps)
next
  case (lipsync buffer mime ext t0 sent emo out s0 e1)
  then have t: "t0 = t" using assms by auto
  obtain a b n where rp: "replyPrompt s t sent emo = ReplyPrompt a b t sent emo n"
    using replyPrompt_shape by blast
  have "essentialError env (LipSync 0 (map_of (messageMp3 s0) 0)) = Some e1"
    using lipsync(6) by (simp only: lipSyncMessage_essential)
  then show ?thesis
    using lipsync(3,7) assms(1) t rp localAnalytics_labels [of env t sent emo]
    by (intro exI [of _ sent] exI [of _ emo] exI [of _ a] exI [of _ b] exI [of _ n])
       (auto simp del: essentialError.simps)
next
  case (summary buffer mime ext t0 sent emo out s0 au ls s1 e1 calls4)
  then have t: "t0 = t" using assms maybeUpdateSummary_no_Sentiment [of env s1 "Inl e1" calls4 t] by auto
  obtain a b n where rp: "replyPrompt s t sent emo = ReplyPrompt a b t sent emo n"
    using replyPrompt_shape by blast
  obtain c where c: "c \<in> set calls4" "summaryError env c = Some e1"
    using maybeUpdateSummary_error [OF summary(9)] by blast
  show ?thesis
    using summary(3,10) assms(1) t rp localAnalytics_labels [of env t sent emo] c
    by (intro exI [of _ sent] exI [of _ emo] exI [of _ a] exI [of _ b] exI [of _ n])
       (auto simp del: essentialError.simps summaryError.simps)
next
  case (reply buffer mime ext t0 sent emo out s0 au ls s1 s2 calls4)
  then have t: "t0 = t" using assms maybeUpdateSummary_no_Sentiment [of env s1 "Inr s2" calls4 t] by auto
  obtain a b n where rp: "replyPrompt s t sent emo = ReplyPrompt a b t sent emo n"
    using replyPrompt_shape by blast
  show ?thesis
    using reply(3,10) assms(1) t rp localAnalytics_labels [of env t sent emo]
    by (intro exI [of _ sent] exI [of _ emo] exI [of _ a] exI [of _ b] exI [of _ n]) auto
qed

text \<open>
  C5: in every request that reached the sentiment stage with transcript \<open>t\<close>, the pipeline
  goes on with two labels \<open>sent\<close> and \<open>emo\<close>: the emotion predictor is called with
  \<open>sent\<close> and reply generation with both; \<open>sent\<close> is \<^verbatim>\<open>neutral\<close> when the sentiment
  service failed and \<open>emo\<close> is \<^verbatim>\<open>default\<close> when the emotion predictor failed; a reply
  carries these labels; and an error result, if any, is the error of an essential call or
  of the summary call, never one of the optional services.
\<close>

theorem optional_stages_default_and_continue:
  assumes "chat env um s = (r, s', calls)" and "Sentiment t \<in> set calls"
  shows "\<exists>sent emo a b n.
           (\<forall>e. sentimentService env t = Inl e \<longrightarrow> sent = ''neutral'')
         \<and> (\<forall>e. miaPredictService env t sent = Inl e \<longrightarrow> emo = ''default'')
         \<and> MiaPredict t sent \<in> set calls
         \<and> Responses (ReplyPrompt a b t sent emo n) \<in> set calls
         \<and> (\<forall>t' sent' emo' msg. r = Reply t' sent' emo' msg \<longrightarrow> t' = t \<and> sent' = sent \<and> emo' = emo)
         \<and> (\<forall>e. r = ServerError e \<longrightarrow>
               (\<exists>c \<in> set calls. essentialError env c = Some e \<or> summaryError env c = Some e))"
proof -
  obtain m where "chatAudio env m (markActivity env s) = (r, s', calls)"
    using chat_audio_only [OF assms] by blast
  from chatAudio_optional [OF this assms(2)] show ?thesis .
qed

text \<open>Both optional services fail on the transcript \<^verbatim>\<open>tengo un mal dia\<close>; the reply
  carries \<^verbatim>\<open>neutral\<close>, \<^verbatim>\<open>default\<close> and the visuals \<^verbatim>\<open>default\<close>, \<^verbatim>\<open>Talking_0\<close>.\<close>

theorem optional_stages_default_and_continue_witness:
  "Sentiment (''tengo un mal d'' @ [CHR 0xED] @ ''a'')
      \<in> set (snd (snd (chat failingAnalyticsEnv (Some demoAudio) emptySession)))
   \<and> sentimentService failingAnalyticsEnv (''tengo un mal d'' @ [CHR 0xED] @ ''a'') = Inl ''sentiment 500''
   \<and> miaPredictService failingAnalyticsEnv (''tengo un mal d'' @ [CHR 0xED] @ ''a'') ''neutral''
        = Inl ''mia_predict 503''
   \<and> MiaPredict (''tengo un mal d'' @ [CHR 0xED] @ ''a'') ''neutral''
      \<in> set (snd (snd (chat failingAnalyticsEnv (Some demoAudio) emptySession)))
   \<and> (\<exists>a b n. Responses (ReplyPrompt a b (''tengo un mal d'' @ [CHR 0xED] @ ''a'') ''neutral'' ''default'' n)
      \<in> set (snd (snd (chat failingAnalyticsEnv (Some demoAudio) emptySession))))
   \<and> fst (chat failingAnalyticsEnv (Some demoAudio) emptySession) =
       Reply (''tengo un mal d'' @ [CHR 0xED] @ ''a'') ''neutral'' ''default''
         \<lparr>facialExpression = ''default'', animation = ''Talking_0'', msgText = ''Me alegra.'',
          audio = Some ''UklGRg=='', lipsync = Some ''{}''\<rparr>"
proof -
  let ?t = "''tengo un mal d'' @ [CHR 0xED] @ ''a''"
  let ?run = "chat failingAnalyticsEnv (Some demoAudio) emptySession"
  have r: "fst ?run = Reply ?t ''neutral'' ''default''
         \<lparr>facialExpression = ''default'', animation = ''Talking_0'', msgText = ''Me alegra.'',
          audio = Some ''UklGRg=='', lipsync = Some ''{}''\<rparr>"
    by code_simp
  have m: "Sentiment ?t \<in> set (snd (snd ?run))" by code_simp
  have f1: "sentimentService failingAnalyticsEnv ?t = Inl ''sentiment 500''"
    by (simp add: failingAnalyticsEnv_def)
  have f2: "\<And>x. miaPredictService failingAnalyticsEnv ?t x = Inl ''mia_predict 503''"
    by (simp add: failingAnalyticsEnv_def)
  have p: "?run = (fst ?run, fst (snd ?run), snd (snd ?run))" by simp
  from optional_stages_default_and_continue [OF p m]
  obtain sent emo a b n where all:
       "(\<forall>e. sentimentService failingAnalyticsEnv ?t = Inl e \<longrightarrow> sent = ''neutral'')
      \<and> (\<forall>e. miaPredictService failingAnalyticsEnv ?t sent = Inl e \<longrightarrow> emo = ''default'')
      \<and> MiaPredict ?t sent \<in> set (snd (snd ?run))
      \<and> Responses (ReplyPrompt a b ?t sent emo n) \<in> set (snd (snd ?run))"
    by (elim exE conjE) (rule that, intro conjI)
  then have s: "\<forall>e. sentimentService failingAnalyticsEnv ?t = Inl e \<longrightarrow> sent = ''neutral''"
    and e: "\<forall>e. miaPredictService failingAnalyticsEnv ?t sent = Inl e \<longrightarrow> emo = ''default''"
    and c1: "MiaPredict ?t sent \<in> set (snd (snd ?run))"
    and c2: "Responses (ReplyPrompt a b ?t sent emo n) \<in> set (snd (snd ?run))"
    by simp_all
  have "sent = ''neutral''" using s f1 by blast
  moreover have "emo = ''default''" using e f2 [of sent] by blast
  ultimately show ?thesis using c1 c2 r m f1 f2 [of "''neutral''"] by blast
qed

section \<open>Rolling summary\<close>

lemma concat_escape_length: "length s \<le> length (concat (map jsonEscapeChar s))"
proof (induction s)
  case Nil
  then show ?case by simp
next
  case (Cons c s)
  have "1 \<le> length (jsonEscapeChar c)" by (simp add: jsonEscapeChar_def)
  with Cons show ?case by simp
qed

lemma jsonQuote_length: "length s < length (jsonQuote s)"
  using concat_escape_length [of s] by (simp add: jsonQuote_def)

lemma joinWith_length: "x \<in> set xs \<Longrightarrow> length x \<le> length (joinWith sep xs)"
  by (induction sep xs rule: joinWith.induct) auto

lemma jsonObject_length:
  assumes "(k, v) \<in> set members"
  shows "length v < length (jsonObject members)"
proof -
  have "jsonQuote k @ '':'' @ v \<in> set (map (\<lambda>(k, v). jsonQuote k @ '':'' @ v) members)"
    using assms by force
  from joinWith_length [OF this, of "'',''"]
  show ?thesis by (simp add: jsonObject_def)
qed

lemma stringifyTurn_length: "length (user_responde c) < length (stringifyTurn c)"
proof -
  have "length (jsonQuote (user_responde c)) < length (stringifyTurn c)"
    unfolding stringifyTurn_def by (rule jsonObject_length [of "''user_responde''"]) simp
  then show ?thesis using jsonQuote_length [of "user_responde c"] by simp
qed

lemma JSON_stringify_length:
  assumes "(k, c) \<in> set h"
  shows "length (user_responde c) < length (JSON_stringify h)"
proof -
  have "(k, stringifyTurn c) \<in> set (map (\<lambda>(k, c). (k, stringifyTurn c)) h)"
    using assms by force
  from jsonObject_length [OF this] stringifyTurn_length [of c]
  show ?thesis by (simp add: JSON_stringify_def)
qed

lemma length_longText: "length longText = 10001"
  by (simp add: longText_def)

lemma bigSession_over: "MAX_CONTEXT_CHARS < length (JSON_stringify (historialOf bigSession))"
proof -
  have "(''conversacion_1'',
        \<lparr>user_responde = longText, sentimiento = ''neutral'', mia_emocion = ''default'',
         mia_text = ''Te escucho.''\<rparr>) \<in> set (historialOf bigSession)"
    by (simp add: historialOf_def bigSession_def readJsonSafe_def)
  from JSON_stringify_length [OF this] show ?thesis
    by (simp add: length_longText MAX_CONTEXT_CHARS_def)
qed

lemma maybeUpdateSummary_cases:
  "(length (JSON_stringify (historialOf s)) \<le> MAX_CONTEXT_CHARS \<longrightarrow>
      maybeUpdateSummary env s = (Inr s, []))
   \<and> (MAX_CONTEXT_CHARS < length (JSON_stringify (historialOf s)) \<longrightarrow>
        snd (maybeUpdateSummary env s) =
          [Responses (SummaryPrompt (summaryResumen (readJsonSafe (summaryFile s) None)) (historialOf s))]
        \<and> (\<forall>out. responsesCreate env
                    (SummaryPrompt (summaryResumen (readJsonSafe (summaryFile s) None)) (historialOf s))
                  = Inr out \<longrightarrow>
              fst (maybeUpdateSummary env s) =
                Inr (s\<lparr>summaryFile := Content (Some
                      \<lparr>resumen = trim (orEmpty out), updatedAt = nowSummary env,
                       total_conversaciones = length (historialOf s)\<rparr>)\<rparr>))
        \<and> (\<forall>e. responsesCreate env
                    (SummaryPrompt (summaryResumen (readJsonSafe (summaryFile s) None)) (historialOf s))
                  = Inl e \<longrightarrow>
              fst (maybeUpdateSummary env s) = Inl e))"
  by (auto simp: maybeUpdateSummary_def historialOf_def Let_def objectKeys_def split: sum.splits)

lemma maybeUpdateSummary_ok:
  assumes "maybeUpdateSummary env s = (Inr s2, cs)"
  shows "historialOf s2 = historialOf s"
    and "(\<exists>previous h. Responses (SummaryPrompt previous h) \<in> set cs)
           \<longleftrightarrow> MAX_CONTEXT_CHARS < length (JSON_stringify (historialOf s))"
    and "set cs \<subseteq> {Responses (SummaryPrompt (summaryResumen (readJsonSafe (summaryFile s) None)) (historialOf s))}"
    and "MAX_CONTEXT_CHARS < length (JSON_stringify (historialOf s)) \<Longrightarrow>
           \<exists>r. summaryFile s2 = Content (Some r) \<and> total_conversaciones r = length (historialOf s)
               \<and> updatedAt r = nowSummary env"
    and "length (JSON_stringify (historialOf s)) \<le> MAX_CONTEXT_CHARS \<Longrightarrow> summaryFile s2 = summaryFile s"
  using assms
  by (auto simp: maybeUpdateSummary_def historialOf_def Let_def objectKeys_def
           split: sum.splits if_splits)

lemma chat_Reply_summary:
  assumes "chat env um s = (Reply t sent emo msg, s', calls)"
  shows "((\<exists>previous h. Responses (SummaryPrompt previous h) \<in> set calls)
            \<longleftrightarrow> MAX_CONTEXT_CHARS < length (JSON_stringify (historialOf s')))
       \<and> (MAX_CONTEXT_CHARS < length (JSON_stringify (historialOf s')) \<longrightarrow>
            (\<exists>r. summaryFile s' = Content (Some r) \<and> total_conversaciones r = length (historialOf s')
                \<and> updatedAt r = nowSummary env))
       \<and> (length (JSON_stringify (historialOf s')) \<le> MAX_CONTEXT_CHARS \<longrightarrow>
            summaryFile s' = summaryFile s)"
proof -
  obtain m where a: "chatAudio env m (markActivity env s) = (Reply t sent emo msg, s', calls)"
    using chat_Reply [OF assms] by blast
  show ?thesis
  proof (cases rule: chatAudio_outcomes [of m env "markActivity env s"])
    case (reply buffer mime ext t0 sent0 emo0 out s0 au ls s1 s2 calls4)
    have s': "s' = s2\<lparr>lastActivity := nowEnd env\<rparr>" using reply(10) a by simp
    have h: "historialOf s' = historialOf s1"
      using maybeUpdateSummary_ok(1) [OF reply(9)] s' by (simp add: historialOf_def)
    have sf: "summaryFile s' = summaryFile s2" using s' by simp
    have sf1: "summaryFile s1 = summaryFile s" using reply(5,8) by (simp add: markActivity_frame)
    have rp: "\<And>previous h. SummaryPrompt previous h \<noteq> replyPrompt (markActivity env s) t0 sent0 emo0"
      by (simp add: replyPrompt_def split: prod.splits)
    have calls: "calls = [Whisper buffer (''audio.'' @ ext) mime, Sentiment t0, MiaPredict t0 sent0,
           Responses (replyPrompt (markActivity env s) t0 sent0 emo0),
           TextToSpeech ''audios/message_0.mp3'' (trim (orEmpty out)), LipSync 0 (Some au)] @ calls4"
      using reply(10) a by simp
    have "(\<exists>previous h. Responses (SummaryPrompt previous h) \<in> set calls)
            \<longleftrightarrow> (\<exists>previous h. Responses (SummaryPrompt previous h) \<in> set calls4)"
      unfolding calls using rp by auto
    then show ?thesis
      using maybeUpdateSummary_ok(2,4,5) [OF reply(9)] unfolding h sf sf1 by blast
  qed (use a in auto)
qed

text \<open>
  C6, as stated, fails when the generation call fails: the history is over the threshold,
  the call is made, and \<^verbatim>\<open>maybeUpdateSummary\<close> ends with the error before it writes the
  summary.
\<close>

theorem failed_summary_call_replaces_nothing:
  "MAX_CONTEXT_CHARS < length (JSON_stringify (historialOf bigSession))
   \<and> maybeUpdateSummary failingGenerationEnv bigSession =
       (Inl ''429 rate limit'', [Responses (SummaryPrompt ''Saludo inicial.'' (historialOf bigSession))])"
proof -
  have "\<not> length (JSON_stringify (readJsonSafe (histFile bigSession) [])) \<le> MAX_CONTEXT_CHARS"
    using bigSession_over by (simp add: historialOf_def)
  then have "maybeUpdateSummary failingGenerationEnv bigSession =
       (Inl ''429 rate limit'', [Responses (SummaryPrompt ''Saludo inicial.'' (historialOf bigSession))])"
    by (simp add: maybeUpdateSummary_def Let_def historialOf_def failingGenerationEnv_def
          summaryResumen_def bigSession_def readJsonSafe_def)
  then show ?thesis using bigSession_over by simp
qed

text \<open>
  C6, amended: the summary call is made exactly when the serialized history is longer than
  10000 characters. At or below the threshold nothing is called and the state is
  unchanged. Above it, one call is made with the previous summary and the full history;
  when it succeeds the summary document is replaced by the trimmed output, the clock
  reading and the number of entries of the history; when it fails the error is thrown and
  nothing is written. For a request answered with a reply this reads: the summary call is
  among its calls exactly when the history it leaves, new turn included, is over the
  threshold; then the summary it leaves counts all turns of that history, and otherwise
  the summary is the one from before the request.
\<close>

theorem summary_trigger:
  "(length (JSON_stringify (historialOf s)) \<le> MAX_CONTEXT_CHARS \<longrightarrow>
      maybeUpdateSummary env s = (Inr s, []))
   \<and> (MAX_CONTEXT_CHARS < length (JSON_stringify (historialOf s)) \<longrightarrow>
        snd (maybeUpdateSummary env s) =
          [Responses (SummaryPrompt (summaryResumen (readJsonSafe (summaryFile s) None)) (historialOf s))]
        \<and> (\<forall>out. responsesCreate env
                    (SummaryPrompt (summaryResumen (readJsonSafe (summaryFile s) None)) (historialOf s))
                  = Inr out \<longrightarrow>
              fst (maybeUpdateSummary env s) =
                Inr (s\<lparr>summaryFile := Content (Some
                      \<lparr>resumen = trim (orEmpty out), updatedAt = nowSummary env,
                       total_conversaciones = length (historialOf s)\<rparr>)\<rparr>))
        \<and> (\<forall>e. responsesCreate env
                    (SummaryPrompt (summaryResumen (readJsonSafe (summaryFile s) None)) (historialOf s))
                  = Inl e \<longrightarrow>
              fst (maybeUpdateSummary env s) = Inl e))
   \<and> (chat env um s = (Reply t sent emo msg, s', calls) \<longrightarrow>
        ((\<exists>previous h. Responses (SummaryPrompt previous h) \<in> set calls)
            \<longleftrightarrow> MAX_CONTEXT_CHARS < length (JSON_stringify (historialOf s')))
        \<and> (MAX_CONTEXT_CHARS < length (JSON_stringify (historialOf s')) \<longrightarrow>
            (\<exists>r. summaryFile s' = Content (Some r) \<and> total_conversaciones r = length (historialOf s')
                \<and> updatedAt r = nowSummary env))
        \<and> (length (JSON_stringify (historialOf s')) \<le> MAX_CONTEXT_CHARS \<longrightarrow>
            summaryFile s' = summaryFile s))"
  using maybeUpdateSummary_cases [of s env] chat_Reply_summary [of env um s t sent emo msg s' calls]
  by blast

text \<open>A history of one long turn with a working service, and a history of one short turn.\<close>

theorem summary_trigger_witness:
  "MAX_CONTEXT_CHARS < length (JSON_stringify (historialOf bigSession))
   \<and> responsesCreate demoEnv (SummaryPrompt (summaryResumen (readJsonSafe (summaryFile bigSession) None))
        (historialOf bigSession)) = Inr (Some '' Me alegra. '')
   \<and> maybeUpdateSummary demoEnv bigSession =
       (Inr (bigSession\<lparr>summaryFile := Content (Some
               \<lparr>resumen = ''Me alegra.'', updatedAt = 1002, total_conversaciones = 1\<rparr>)\<rparr>),
        [Responses (SummaryPrompt ''Saludo inicial.'' (historialOf bigSession))])
   \<and> length (JSON_stringify (historialOf staleSession)) \<le> MAX_CONTEXT_CHARS
   \<and> maybeUpdateSummary demoEnv staleSession = (Inr staleSession, [])
   \<and> isReply (fst (chat demoEnv (Some demoAudio) emptySession))
   \<and> length (JSON_stringify (historialOf (fst (snd (chat demoEnv (Some demoAudio) emptySession)))))
        \<le> MAX_CONTEXT_CHARS
   \<and> summaryFile (fst (snd (chat demoEnv (Some demoAudio) emptySession))) = summaryFile emptySession"
proof -
  have small: "length (JSON_stringify (historialOf staleSession)) \<le> MAX_CONTEXT_CHARS"
    by code_simp
  have call: "responsesCreate demoEnv (SummaryPrompt (summaryResumen (readJsonSafe (summaryFile bigSession) None))
        (historialOf bigSession)) = Inr (Some '' Me alegra. '')"
    by (simp add: demoEnv_def)
  have prev: "summaryResumen (readJsonSafe (summaryFile bigSession) None) = ''Saludo inicial.''"
    by (simp add: summaryResumen_def bigSession_def readJsonSafe_def)
  have len: "length (historialOf bigSession) = 1"
    by (simp add: historialOf_def bigSession_def readJsonSafe_def)
  have tr: "trim (orEmpty (Some '' Me alegra. '')) = ''Me alegra.''" by code_simp
  have now: "nowSummary demoEnv = 1002" by (simp add: demoEnv_def)
  from summary_trigger [of staleSession demoEnv] small
  have a: "maybeUpdateSummary demoEnv staleSession = (Inr staleSession, [])" by simp
  from summary_trigger [of bigSession demoEnv] bigSession_over call
  have "snd (maybeUpdateSummary demoEnv bigSession) =
          [Responses (SummaryPrompt ''Saludo inicial.'' (historialOf bigSession))]
        \<and> fst (maybeUpdateSummary demoEnv bigSession) =
            Inr (bigSession\<lparr>summaryFile := Content (Some
               \<lparr>resumen = ''Me alegra.'', updatedAt = 1002, total_conversaciones = 1\<rparr>)\<rparr>)"
    unfolding prev len by (simp add: tr now)
  then have b: "maybeUpdateSummary demoEnv bigSession =
       (Inr (bigSession\<lparr>summaryFile := Content (Some
               \<lparr>resumen = ''Me alegra.'', updatedAt = 1002, total_conversaciones = 1\<rparr>)\<rparr>),
        [Responses (SummaryPrompt ''Saludo inicial.'' (historialOf bigSession))])"
    by (metis prod.collapse)
  let ?run = "chat demoEnv (Some demoAudio) emptySession"
  have r: "isReply (fst ?run)" unfolding demo_first_reply by simp
  have sm: "length (JSON_stringify (historialOf (fst (snd ?run)))) \<le> MAX_CONTEXT_CHARS"
    unfolding demo_first_reply by code_simp
  obtain t sent emo msg where rr: "fst ?run = Reply t sent emo msg"
    using r by (cases "fst ?run") auto
  have p: "?run = (Reply t sent emo msg, fst (snd ?run), snd (snd ?run))"
    using rr by (metis prod.collapse)
  from summary_trigger [of emptySession demoEnv "Some demoAudio" t sent emo msg "fst (snd ?run)"
      "snd (snd ?run)"] p sm
  have c: "summaryFile (fst (snd ?run)) = summaryFile emptySession" by blast
  show ?thesis using a b c r sm small call bigSession_over by simp
qed

lemma demo_summary_fails:
  "chat verboseEnv (Some demoAudio) emptySession =
     (ServerError ''503 summary unavailable'',
      emptySession\<lparr>lastActivity := 1000,
        histFile := Content [(''conversacion_1'',
          \<lparr>user_responde = longText, sentimiento = ''positivo'', mia_emocion = ''amor'',
           mia_text = ''Te escucho.''\<rparr>)],
        messageMp3 := [(0, ''UklGRg=='')]\<rparr>,
      [Whisper ''AAAA'' ''audio.webm'' ''audio/webm'', Sentiment longText,
       MiaPredict longText ''positivo'',
       Responses (ReplyPrompt (''(sin resumen a'' @ [CHR 0xFA] @ ''n)'')
          ''(no hay historial reciente)'' longText ''positivo'' ''amor'' 0),
       TextToSpeech ''audios/message_0.mp3'' ''Te escucho.'', LipSync 0 (Some ''UklGRg==''),
       Responses (SummaryPrompt [] [(''conversacion_1'',
          \<lparr>user_responde = longText, sentimiento = ''positivo'', mia_emocion = ''amor'',
           mia_text = ''Te escucho.''\<rparr>)])])"
proof -
  let ?h = "[(''conversacion_1'',
          \<lparr>user_responde = longText, sentimiento = ''positivo'', mia_emocion = ''amor'',
           mia_text = ''Te escucho.''\<rparr>)]"
  have over: "\<not> length (JSON_stringify ?h) \<le> MAX_CONTEXT_CHARS"
    using JSON_stringify_length [of "''conversacion_1''" _ ?h]
    by (simp add: length_longText MAX_CONTEXT_CHARS_def)
  have gate: "\<not> expiredAtGate verboseEnv (markActivity verboseEnv emptySession)"
    by (rule gate_open) (simp_all add: emptySession_def verboseEnv_def demoEnv_def INACTIVITY_MS_def)
  have au: "startsWith demoAudio ''data:audio''" by (simp add: startsWith_def demoAudio_def)
  have p: "parseDataUrl demoAudio = Inr (''AAAA'', ''audio/webm'', ''webm'')" by code_simp
  have tr: "trim ''Te escucho.'' = ''Te escucho.''" by code_simp
  have k: "conversacionKey (Suc 0) = ''conversacion_1''" by code_simp
  have ctx: "replyPrompt (markActivity verboseEnv emptySession) longText ''positivo'' ''amor''
      = ReplyPrompt (''(sin resumen a'' @ [CHR 0xFA] @ ''n)'')
          ''(no hay historial reciente)'' longText ''positivo'' ''amor'' 0"
    by code_simp
  have la: "localAnalytics verboseEnv longText = (''positivo'', ''amor'')"
    by code_simp
  have env:
    "\<And>buffer filename mime. whisperCreate verboseEnv buffer filename mime = Inr (Some longText)"
    "\<And>a b c d e n. responsesCreate verboseEnv (ReplyPrompt a b c d e n) = Inr (Some ''Te escucho.'')"
    "\<And>x h. responsesCreate verboseEnv (SummaryPrompt x h) = Inl ''503 summary unavailable''"
    "\<And>f t. textToSpeech verboseEnv f t = Inr ''UklGRg==''"
    "\<And>i content. lipSync verboseEnv i content = Inr ''{}''"
    by (simp_all add: verboseEnv_def demoEnv_def)
  have st: "histFile (markActivity verboseEnv emptySession) = Content []"
    "summaryFile (markActivity verboseEnv emptySession) = Content None"
    "markActivity verboseEnv emptySession = emptySession\<lparr>lastActivity := 1000\<rparr>"
    by (simp_all add: markActivity_def emptySession_def verboseEnv_def demoEnv_def)
  have w: "\<And>b f m. transcribeBufferWithWhisper verboseEnv b f m = Inr longText"
    by (simp add: transcribeBufferWithWhisper_def env orEmpty_def)
  have g: "generateMiaReply verboseEnv (markActivity verboseEnv emptySession) longText ''positivo'' ''amor''
      = (Inr ''Te escucho.'', [Responses (ReplyPrompt (''(sin resumen a'' @ [CHR 0xFA] @ ''n)'')
          ''(no hay historial reciente)'' longText ''positivo'' ''amor'' 0)])"
    by (simp add: generateMiaReply_def ctx env(2) Let_def orEmpty_def tr)
  have sy: "synthesize verboseEnv 0 ''Te escucho.'' (markActivity verboseEnv emptySession) =
      (Inr (''UklGRg=='', ''{}''),
       emptySession\<lparr>lastActivity := 1000, messageMp3 := [(0, ''UklGRg=='')]\<rparr>,
       [TextToSpeech ''audios/message_0.mp3'' ''Te escucho.'', LipSync 0 (Some ''UklGRg=='')])"
    by (simp add: synthesize_def voiceTextToSpeech_def lipSyncMessage_def writeMp3_def showNat_0
          Let_def env st(3)) (simp add: emptySession_def)
  have nx: "nextIndexOf [] = Suc 0" by (simp add: nextIndexOf_def objectKeys_def)
  have os: "objectSet [] ''conversacion_1''
      \<lparr>user_responde = longText, sentimiento = ''positivo'', mia_emocion = ''amor'',
           mia_text = ''Te escucho.''\<rparr> = ?h"
    by (simp add: objectSet_def objectKeys_def)
  have mu: "maybeUpdateSummary verboseEnv
      (emptySession\<lparr>lastActivity := 1000, messageMp3 := [(0, ''UklGRg=='')],
         histFile := Content ?h\<rparr>) =
      (Inl ''503 summary unavailable'', [Responses (SummaryPrompt [] ?h)])"
    using over
    by (simp add: maybeUpdateSummary_def Let_def readJsonSafe_def summaryResumen_def env(3)
          emptySession_def)
  show ?thesis
    unfolding chat_audio [OF gate au] chatAudio_def p
    by (simp add: w la g sy nx k os mu Let_def readJsonSafe_def st(1))
qed

text \<open>
  C1, as stated, fails: every stage up to the write of the turn succeeds, the history is
  over the threshold, the summary call fails, and the request is answered with status 500.
\<close>

theorem summary_failure_fails_the_request:
  "MAX_CONTEXT_CHARS < length (JSON_stringify (historialOf (fst (snd (chat verboseEnv (Some demoAudio) emptySession)))))
   \<and> responsesCreate verboseEnv (SummaryPrompt [] (historialOf (fst (snd (chat verboseEnv (Some demoAudio) emptySession)))))
       = Inl ''503 summary unavailable''
   \<and> fst (chat verboseEnv (Some demoAudio) emptySession) = ServerError ''503 summary unavailable''
   \<and> \<not> isReply (fst (chat verboseEnv (Some demoAudio) emptySession))"
proof -
  have "MAX_CONTEXT_CHARS < length (JSON_stringify [(''conversacion_1'',
          \<lparr>user_responde = longText, sentimiento = ''positivo'', mia_emocion = ''amor'',
           mia_text = ''Te escucho.''\<rparr>)])"
    using JSON_stringify_length [of "''conversacion_1''" _ "[(''conversacion_1'',
          \<lparr>user_responde = longText, sentimiento = ''positivo'', mia_emocion = ''amor'',
           mia_text = ''Te escucho.''\<rparr>)]"]
    by (simp add: length_longText MAX_CONTEXT_CHARS_def)
  then show ?thesis
    unfolding demo_summary_fails
    by (simp add: historialOf_def readJsonSafe_def verboseEnv_def)
qed

text \<open>
  C1, amended: whenever a request made a summary call that was answered with an error,
  the summary document is as before and the new turn stays written in the history, but
  the response is the error result carrying that error: the failure reaches the caller.
\<close>

theorem summary_failure_is_surfaced:
  assumes "chat env um s = (r, s', calls)" and "c \<in> set calls" and "summaryError env c = Some e"
  shows "r = ServerError e \<and> summaryFile s' = summaryFile s
         \<and> (\<exists>t sent emo reply. histFile s' =
               Content (objectSet (historialOf s) (conversacionKey (nextIndexOf (historialOf s)))
                 \<lparr>user_responde = t, sentimiento = sent, mia_emocion = emo, mia_text = reply\<rparr>))"
proof -
  have "\<exists>m. chatAudio env m (markActivity env s) = (r, s', calls)"
    using assms by (intro chat_audio_only [of env um s r s' calls c]) auto
  then obtain m where a: "chatAudio env m (markActivity env s) = (r, s', calls)" by blast
  show ?thesis
  proof (cases rule: chatAudio_outcomes [of m env "markActivity env s"])
    case (parse e1)
    then show ?thesis using a assms by simp
  next
    case (whisper buffer mime ext e1)
    then show ?thesis using a assms by auto
  next
    case (generate buffer mime ext t sent emo e1)
    then show ?thesis using a assms by (auto simp: summaryError_replyPrompt)
  next
    case (lipsync buffer mime ext t sent emo out s0 e1)
    then show ?thesis using a assms by (auto simp: summaryError_replyPrompt)
  next
    case (summary buffer mime ext t sent emo out s0 au ls s1 e1 calls4)
    have "c \<in> set calls4" using summary(10) a assms by (auto simp: summaryError_replyPrompt)
    then have "e1 = e" using maybeUpdateSummary_summaryError [OF summary(9) _ assms(3)] by simp
    then show ?thesis using summary(5,8,10) a
      by (auto simp: historialOf_markActivity markActivity_frame)
  next
    case (reply buffer mime ext t sent emo out s0 au ls s1 s2 calls4)
    have "c \<in> set calls4" using reply(10) a assms by (auto simp: summaryError_replyPrompt)
    then show ?thesis using maybeUpdateSummary_summaryError [OF reply(9) _ assms(3)] by simp
  qed
qed

text \<open>The first turn of a session is a transcript of 10001 characters and the summary
  service is down.\<close>

theorem summary_failure_is_surfaced_witness:
  "Responses (SummaryPrompt [] [(''conversacion_1'',
          \<lparr>user_responde = longText, sentimiento = ''positivo'', mia_emocion = ''amor'',
           mia_text = ''Te escucho.''\<rparr>)])
     \<in> set (snd (snd (chat verboseEnv (Some demoAudio) emptySession)))
   \<and> summaryError verboseEnv (Responses (SummaryPrompt [] [(''conversacion_1'',
          \<lparr>user_responde = longText, sentimiento = ''positivo'', mia_emocion = ''amor'',
           mia_text = ''Te escucho.''\<rparr>)])) = Some ''503 summary unavailable''
   \<and> fst (chat verboseEnv (Some demoAudio) emptySession) = ServerError ''503 summary unavailable''
   \<and> summaryFile (fst (snd (chat verboseEnv (Some demoAudio) emptySession))) = summaryFile emptySession"
proof -
  let ?c = "Responses (SummaryPrompt [] [(''conversacion_1'',
          \<lparr>user_responde = longText, sentimiento = ''positivo'', mia_emocion = ''amor'',
           mia_text = ''Te escucho.''\<rparr>)])"
  have m: "?c \<in> set (snd (snd (chat verboseEnv (Some demoAudio) emptySession)))"
    unfolding demo_summary_fails by simp
  have e: "summaryError verboseEnv ?c = Some ''503 summary unavailable''"
    by (simp add: verboseEnv_def)
  have p: "chat verboseEnv (Some demoAudio) emptySession =
      (fst (chat verboseEnv (Some demoAudio) emptySession),
       fst (snd (chat verboseEnv (Some demoAudio) emptySession)),
       snd (snd (chat verboseEnv (Some demoAudio) emptySession)))"
    by simp
  from summary_failure_is_surfaced [OF p m e] m e
  show ?thesis by simp
qed

section \<open>The window of recent turns\<close>

lemma compareTurnKeys_key: "compareTurnKeys (conversacionKey a) (conversacionKey b) = int a - int b"
  by (simp add: compareTurnKeys_def turnNumber_key)

lemma sortTurnKeys_sorted:
  "sorted ns \<Longrightarrow> sortTurnKeys (map conversacionKey ns) = map conversacionKey ns"
proof (induction ns)
  case Nil
  then show ?case by (simp add: sortTurnKeys_def)
next
  case (Cons n ns)
  then have ih: "sortTurnKeys (map conversacionKey ns) = map conversacionKey ns" by simp
  have "sortTurnKeys (map conversacionKey (n # ns)) = insertKey (conversacionKey n) (map conversacionKey ns)"
    using ih by (simp add: sortTurnKeys_def)
  also have "\<dots> = conversacionKey n # map conversacionKey ns"
  proof (cases ns)
    case Nil
    then show ?thesis by simp
  next
    case (Cons k ks)
    then have "n \<le> k" using Cons.prems by simp
    then show ?thesis using Cons by (simp add: compareTurnKeys_key)
  qed
  finally show ?case by simp
qed

lemma filter_keys: "filter (\<lambda>k. startsWith k ''conversacion_'') (map conversacionKey ns) = map conversacionKey ns"
  by (simp add: filter_id_conv startsWith_key)

lemma distinct_keys: "distinct ns \<Longrightarrow> distinct (map conversacionKey ns)"
  by (simp add: distinct_map inj_on_def) (meson conversacionKey_inj)

lemma recentKeys_dense:
  assumes "objectKeys h = map conversacionKey [1..<Suc n]"
  shows "recentKeys h = map conversacionKey [Suc (n - RECENT_TURNS)..<Suc n]"
    and "recentKeys h = map fst (drop (n - RECENT_TURNS) h)"
proof -
  have s: "sortTurnKeys (filter (\<lambda>k. startsWith k ''conversacion_'') (objectKeys h)) = objectKeys h"
    unfolding assms filter_keys by (rule sortTurnKeys_sorted) (rule sorted_upt)
  have len: "length (objectKeys h) = n" using assms by simp
  show "recentKeys h = map fst (drop (n - RECENT_TURNS) h)"
    unfolding recentKeys_def s Let_def sliceLast_def len by (simp add: objectKeys_def drop_map)
  have "recentKeys h = drop (n - RECENT_TURNS) (map conversacionKey [1..<Suc n])"
    unfolding recentKeys_def s Let_def sliceLast_def len using assms by simp
  also have "\<dots> = map conversacionKey [Suc (n - RECENT_TURNS)..<Suc n]"
    by (simp add: drop_map del: upt_Suc)
  finally show "recentKeys h = map conversacionKey [Suc (n - RECENT_TURNS)..<Suc n]" .
qed

text \<open>
  C7: for a history whose keys are \<^verbatim>\<open>conversacion_1\<close> to \<^verbatim>\<open>conversacion_n\<close> in creation
  order (which every history is that requests and the watchdog made out of an empty one,
  by \<open>runChats_keeps_dense\<close> and \<open>watchdog_keeps_dense\<close>), the window holds the last 6
  turns (all of them when there are fewer), oldest first: its keys are those of the turns
  \<open>n - 5\<close> to \<open>n\<close>, and the text of recent turns handed to generation is made of exactly
  the last 6 entries of the history, in order.
\<close>

theorem recent_window_last_six:
  assumes "objectKeys (historialOf s) = map conversacionKey [1..<Suc n]"
  shows "RECENT_TURNS = 6
       \<and> recentKeys (historialOf s) = map conversacionKey [Suc (n - 6)..<Suc n]
       \<and> fst (snd (loadContextForLLM s)) =
           trim (concat (map (\<lambda>(k, c). formatTurn k (Some c)) (drop (n - 6) (historialOf s))))"
proof -
  let ?h = "historialOf s"
  have six: "RECENT_TURNS = 6" by (simp add: RECENT_TURNS_def)
  have d: "distinct (map fst ?h)"
    using assms distinct_keys [of "[1..<Suc n]"] by (simp add: objectKeys_def)
  have look: "(k, c) \<in> set (drop (n - 6) ?h) \<Longrightarrow> map_of ?h k = Some c" for k c
    using d by (meson in_set_dropD map_of_eq_Some_iff)
  have eq: "map (\<lambda>key. formatTurn key (map_of ?h key)) (map fst (drop (n - 6) ?h))
        = map (\<lambda>(k, c). formatTurn k (Some c)) (drop (n - 6) ?h)"
    using look by (auto simp: map_eq_conv)
  have "formatRecentTurns ?h =
      trim (concat (map (\<lambda>key. formatTurn key (map_of ?h key)) (map fst (drop (n - 6) ?h))))"
    unfolding formatRecentTurns_def recentKeys_dense(2) [OF assms] six ..
  then have "formatRecentTurns ?h =
      trim (concat (map (\<lambda>(k, c). formatTurn k (Some c)) (drop (n - 6) ?h)))"
    unfolding eq .
  then have "fst (snd (loadContextForLLM s)) =
      trim (concat (map (\<lambda>(k, c). formatTurn k (Some c)) (drop (n - 6) ?h)))"
    by (simp add: loadContextForLLM_def Let_def historialOf_def)
  then show ?thesis using six recentKeys_dense(1) [OF assms] by simp
qed

text \<open>Ten turns: the window is turns 5 to 10 in ascending order, without turns 1 to 4.\<close>

theorem recent_window_last_six_witness:
  "objectKeys (historialOf tenSession) = map conversacionKey [1..<Suc 10]
   \<and> recentKeys (historialOf tenSession) = [''conversacion_5'', ''conversacion_6'', ''conversacion_7'', ''conversacion_8'', ''conversacion_9'', ''conversacion_10'']
   \<and> fst (snd (loadContextForLLM tenSession)) =
      ''[conversacion_5]'' @ [CHR 0x0A] @ ''Usuario: u5'' @ [CHR 0x0A] @ ''MIA: m5'' @ [CHR 0x0A, CHR 0x0A] @
      ''[conversacion_6]'' @ [CHR 0x0A] @ ''Usuario: u6'' @ [CHR 0x0A] @ ''MIA: m6'' @ [CHR 0x0A, CHR 0x0A] @
      ''[conversacion_7]'' @ [CHR 0x0A] @ ''Usuario: u7'' @ [CHR 0x0A] @ ''MIA: m7'' @ [CHR 0x0A, CHR 0x0A] @
      ''[conversacion_8]'' @ [CHR 0x0A] @ ''Usuario: u8'' @ [CHR 0x0A] @ ''MIA: m8'' @ [CHR 0x0A, CHR 0x0A] @
      ''[conversacion_9]'' @ [CHR 0x0A] @ ''Usuario: u9'' @ [CHR 0x0A] @ ''MIA: m9'' @ [CHR 0x0A, CHR 0x0A] @
      ''[conversacion_10]'' @ [CHR 0x0A] @ ''Usuario: u10'' @ [CHR 0x0A] @ ''MIA: m10''"
proof -
  have k: "objectKeys (historialOf tenSession) = map conversacionKey [1..<Suc 10]"
    by (simp add: historialOf_def tenSession_def tenTurns_def readJsonSafe_def objectKeys_def comp_def)
  have w: "map conversacionKey [Suc (10 - 6)..<Suc 10] = [''conversacion_5'', ''conversacion_6'', ''conversacion_7'', ''conversacion_8'', ''conversacion_9'', ''conversacion_10'']"
    by code_simp
  have t: "trim (concat (map (\<lambda>(k, c). formatTurn k (Some c)) (drop (10 - 6) (historialOf tenSession))))
      = ''[conversacion_5]'' @ [CHR 0x0A] @ ''Usuario: u5'' @ [CHR 0x0A] @ ''MIA: m5'' @ [CHR 0x0A, CHR 0x0A] @
      ''[conversacion_6]'' @ [CHR 0x0A] @ ''Usuario: u6'' @ [CHR 0x0A] @ ''MIA: m6'' @ [CHR 0x0A, CHR 0x0A] @
      ''[conversacion_7]'' @ [CHR 0x0A] @ ''Usuario: u7'' @ [CHR 0x0A] @ ''MIA: m7'' @ [CHR 0x0A, CHR 0x0A] @
      ''[conversacion_8]'' @ [CHR 0x0A] @ ''Usuario: u8'' @ [CHR 0x0A] @ ''MIA: m8'' @ [CHR 0x0A, CHR 0x0A] @
      ''[conversacion_9]'' @ [CHR 0x0A] @ ''Usuario: u9'' @ [CHR 0x0A] @ ''MIA: m9'' @ [CHR 0x0A, CHR 0x0A] @
      ''[conversacion_10]'' @ [CHR 0x0A] @ ''Usuario: u10'' @ [CHR 0x0A] @ ''MIA: m10''"
    by code_simp
  have th: "recentKeys (historialOf tenSession) = map conversacionKey [Suc (10 - 6)..<Suc 10]
      \<and> fst (snd (loadContextForLLM tenSession)) =
           trim (concat (map (\<lambda>(k, c). formatTurn k (Some c)) (drop (10 - 6) (historialOf tenSession))))"
    using recent_window_last_six [OF k] by blast
  show ?thesis using k th unfolding w t by blast
qed

end
